theory Spec2Isabelle
  imports Main
begin

section \<open>The Sample class of peekaboo/sample.py\<close>

text \<open>
  A shallow embedding of the class \<^verbatim>\<open>Sample\<close>. A sample object is a record, every method
  is a function that takes the object (and, where the method performs input or output, the
  outside world) and returns the outcome together with the updated object (and world).
  An exception is a value \<open>Inl e\<close>; the object that is returned next to it is the object
  as the exception leaves it, since Python does not undo assignments made before a raise.
  Calls of \<^verbatim>\<open>logger\<close> at the levels debug and info are left out.
\<close>

subsection \<open>Rule results (peekaboo.ruleset)\<close>

text \<open>
  Modelled from the spec: the enumeration \<^verbatim>\<open>Result\<close> of \<^verbatim>\<open>peekaboo.ruleset\<close>, whose
  declaration is not among the sources. The specification describes it as an ordered
  enumeration \<^verbatim>\<open>unchecked < clean < suspicious < malicious < failed\<close> whose lowest value
  is the initial result of a sample. Members are compared through their numeric value.
\<close>

datatype result_t = Unchecked | Clean | Suspicious | Malicious | Failed

fun result_value :: "result_t \<Rightarrow> nat" where
  "result_value Unchecked = 0"
| "result_value Clean = 1"
| "result_value Suspicious = 2"
| "result_value Malicious = 3"
| "result_value Failed = 4"

fun result_name :: "result_t \<Rightarrow> string" where
  "result_name Unchecked = ''unchecked''"
| "result_name Clean = ''clean''"
| "result_name Suspicious = ''suspicious''"
| "result_name Malicious = ''malicious''"
| "result_name Failed = ''failed''"

definition result_ge :: "result_t \<Rightarrow> result_t \<Rightarrow> bool" where
  "result_ge a b = (result_value b \<le> result_value a)"

text \<open>
  Modelled from the spec: the class \<^verbatim>\<open>RuleResult\<close> of \<^verbatim>\<open>peekaboo.ruleset\<close>, not among
  the sources either. A rule result carries a severity and a reason; \<open>rr_str\<close> is the text
  that \<^verbatim>\<open>str(rule_result)\<close> gives.
\<close>

record rule_result =
  rr_result :: result_t
  rr_reason :: string
  rr_str :: string

subsection \<open>Attribute values and errors\<close>

text \<open>Of \<^verbatim>\<open>os.stat_result\<close> only the field that the class reads.\<close>

record stat_result =
  st_size :: nat

text \<open>
  The attribute dictionary holds values of several Python types: \<^verbatim>\<open>None\<close>, strings,
  booleans, the result of \<^verbatim>\<open>os.stat\<close>, the set of MIME types and the list of rule results.
\<close>

datatype attr_val =
    ANone
  | AStr string
  | ABool bool
  | AStat stat_result
  | AMimes "string set"
  | ARules "rule_result list"

text \<open>
  The exceptions. The two \<^verbatim>\<open>KeyError\<close>s and the \<^verbatim>\<open>ValueError\<close> are the ones the class
  raises itself, and carry the key of their message. \<open>IOError\<close> and \<open>OSError\<close> carry the
  \<^verbatim>\<open>errno\<close> of a failed system call. \<open>TypeError_None\<close> is the \<^verbatim>\<open>TypeError\<close> of a library
  function that is handed \<^verbatim>\<open>None\<close> in place of a string, \<open>ReError\<close> is \<^verbatim>\<open>re.error\<close>.
  \<open>IllTyped\<close> marks the edge of the model: an attribute holds a value of a Python type that
  the code at this place does not expect. What the interpreter does then is not modelled,
  and no theorem below is about an outcome \<open>Inl IllTyped\<close>.
\<close>

datatype error =
    KeyError_not_found string
  | KeyError_exists string
  | ValueError_no_attr string
  | IOError int
  | OSError int
  | TypeError_None
  | ReError
  | IllTyped

type_synonym 'a res = "error + 'a"

definition EPIPE :: int where
  "EPIPE = 32"

subsection \<open>The object\<close>

text \<open>
  The fields of \<^verbatim>\<open>Sample.__init__\<close>, without the references to the Cuckoo client, to the
  Cuckoo report and to the connection map, which none of the methods below touches.
  A socket is named by a number.
\<close>

record sample =
  path :: string
  wd :: "string option"
  filename :: string
  submit_path :: "string option"
  cuckoo_job_id :: int
  result :: result_t
  reason :: "string option"
  peekaboo_report :: "string list"
  socket :: "nat option"
  attributes :: "string \<rightharpoonup> attr_val"
  base_dir :: "string option"
  job_hash_regex :: "string option"
  keep_mail_data :: bool
  initialized :: bool

subsection \<open>The attribute store\<close>

definition has_attr :: "sample \<Rightarrow> string \<Rightarrow> bool" where
  "has_attr s key = (attributes s key \<noteq> None)"

definition get_attr :: "sample \<Rightarrow> string \<Rightarrow> attr_val res" where
  "get_attr s key =
     (case attributes s key of
        Some v \<Rightarrow> Inr v
      | None \<Rightarrow> Inl (KeyError_not_found key))"

definition set_attr :: "sample \<Rightarrow> string \<Rightarrow> attr_val \<Rightarrow> bool \<Rightarrow> unit res \<times> sample" where
  "set_attr s key val override =
     (if has_attr s key \<and> \<not> override then (Inl (KeyError_exists key), s)
      else (Inr (), s\<lparr>attributes := (attributes s)(key \<mapsto> val)\<rparr>))"

text \<open>
  \<^verbatim>\<open>remove_attr\<close>: the \<^verbatim>\<open>raise\<close> is not under an \<^verbatim>\<open>else\<close>; it follows the \<^verbatim>\<open>if\<close>
  statement and is reached on both paths.
\<close>

definition remove_attr :: "sample \<Rightarrow> string \<Rightarrow> unit res \<times> sample" where
  "remove_attr s key =
     (let s1 = (if has_attr s key then s\<lparr>attributes := (attributes s)(key := None)\<rparr> else s)
      in (Inl (ValueError_no_attr key), s1))"

subsection \<open>Library functions\<close>

text \<open>
  \<^verbatim>\<open>posixpath.basename\<close>, \<^verbatim>\<open>posixpath.join\<close> (for two arguments) and
  \<^verbatim>\<open>posixpath.splitext\<close>, as the Python library defines them. \<open>rfind\<close> is
  \<^verbatim>\<open>str.rfind\<close> for a single character: the last index of the character, or \<open>-1\<close>.
\<close>

definition rfind :: "char \<Rightarrow> string \<Rightarrow> int" where
  "rfind c p =
     (case filter (\<lambda>i. p ! i = c) (rev [0..<length p]) of
        [] \<Rightarrow> - 1
      | i # _ \<Rightarrow> int i)"

definition basename :: "string \<Rightarrow> string" where
  "basename p = drop (nat (rfind (CHR ''/'') p + 1)) p"

definition path_join :: "string \<Rightarrow> string \<Rightarrow> string" where
  "path_join a b =
     (if take 1 b = ''/'' then b
      else if a = [] \<or> last a = CHR ''/'' then a @ b
      else a @ ''/'' @ b)"

definition splitext :: "string \<Rightarrow> string \<times> string" where
  "splitext p =
     (let sepIndex = rfind (CHR ''/'') p;
          dotIndex = rfind (CHR ''.'') p
      in if sepIndex < dotIndex \<and>
            list_ex (\<lambda>c. c \<noteq> CHR ''.'')
              (take (nat (dotIndex - (sepIndex + 1))) (drop (nat (sepIndex + 1)) p))
         then (take (nat dotIndex) p, drop (nat dotIndex) p)
         else (p, []))"

text \<open>
  \<^verbatim>\<open>re.sub(pattern, r'\1', string)\<close> of the Python library, for the patterns that are made
  of one capture group with items before and after it, an item being a single character,
  \<^verbatim>\<open>.\<close>, \<^verbatim>\<open>[^c]\<close> or \<^verbatim>\<open>[a-b]\<close>, alone or under \<^verbatim>\<open>*\<close> or \<^verbatim>\<open>+\<close>. A pattern is held as the
  library holds it after compiling it. \<open>match_items\<close> lists what can remain of the string
  after the items have matched at its start, in the order in which the backtracking matcher
  of the library tries them, the longest repetition first; \<open>match_here\<close> is the match at
  the start of the string, as the text of the group and the rest of the string.
  \<open>re_sub\<close> goes through the string from left to right and puts the text of the group in
  the place of each match; a character that no match takes is copied, also the one after
  a match that takes no character. \<open>re_search_group\<close> is \<^verbatim>\<open>re.search(pattern, string).group(1)\<close>, the
  group captured by the leftmost match.
\<close>

datatype cset = Lit char | Dot | NotLit char | Range char char

fun in_cset :: "cset \<Rightarrow> char \<Rightarrow> bool" where
  "in_cset (Lit c) x = (x = c)"
| "in_cset Dot x = (x \<noteq> CHR 0x0A)"
| "in_cset (NotLit c) x = (x \<noteq> c)"
| "in_cset (Range a b) x = ((of_char a :: nat) \<le> of_char x \<and> (of_char x :: nat) \<le> of_char b)"

datatype item = Once cset | Star cset | Plus cset

record regex =
  before_group :: "item list"
  group1 :: "item list"
  after_group :: "item list"

fun match_items :: "item list \<Rightarrow> string \<Rightarrow> string list" where
  "match_items [] s = [s]"
| "match_items (Once c # items) s =
     (case s of
        [] \<Rightarrow> []
      | x # xs \<Rightarrow> if in_cset c x then match_items items xs else [])"
| "match_items (Star c # items) s =
     concat (map (\<lambda>k. match_items items (drop k s))
       (rev [0..<Suc (length (takeWhile (in_cset c) s))]))"
| "match_items (Plus c # items) s =
     concat (map (\<lambda>k. match_items items (drop k s))
       (rev [1..<Suc (length (takeWhile (in_cset c) s))]))"

definition match_here :: "regex \<Rightarrow> string \<Rightarrow> (string \<times> string) option" where
  "match_here rx s =
     (case concat (map (\<lambda>r1.
             concat (map (\<lambda>r2.
                 map (\<lambda>r3. (take (length r1 - length r2) r1, r3))
                   (match_items (after_group rx) r2))
               (match_items (group1 rx) r1)))
           (match_items (before_group rx) s)) of
        [] \<Rightarrow> None
      | m # _ \<Rightarrow> Some m)"

fun re_sub :: "regex \<Rightarrow> string \<Rightarrow> string" where
  "re_sub rx s =
     (case match_here rx s of
        Some (g, rest) \<Rightarrow>
          if length rest < length s then g @ re_sub rx rest
          else (case s of [] \<Rightarrow> g | x # xs \<Rightarrow> g @ x # re_sub rx xs)
      | None \<Rightarrow> (case s of [] \<Rightarrow> [] | x # xs \<Rightarrow> x # re_sub rx xs))"

declare re_sub.simps [simp del]


text \<open>
  The pure library functions whose results the class only passes on are parameters:
  \<open>sha256_hexdigest b\<close> is \<^verbatim>\<open>hashlib.sha256(b).hexdigest()\<close>; \<open>re_compile p\<close> is the
  pattern that the text \<open>p\<close> stands for, with \<open>None\<close> when the library raises \<^verbatim>\<open>re.error\<close>
  for it;
  \<open>py_repr v\<close> is the text \<^verbatim>\<open>'%s' % v\<close> for a value that is neither a string, nor
  \<^verbatim>\<open>None\<close>, nor a boolean.
\<close>

record pylib =
  sha256_hexdigest :: "string \<Rightarrow> string"
  re_compile :: "string \<Rightarrow> regex option"
  py_repr :: "attr_val \<Rightarrow> string"

definition py_str :: "pylib \<Rightarrow> attr_val \<Rightarrow> string" where
  "py_str lib v =
     (case v of
        AStr x \<Rightarrow> x
      | ANone \<Rightarrow> ''None''
      | ABool b \<Rightarrow> (if b then ''True'' else ''False'')
      | _ \<Rightarrow> py_repr lib v)"

text \<open>The truth value of a Python object, as an \<^verbatim>\<open>if\<close> statement takes it.\<close>

definition truthy :: "attr_val \<Rightarrow> bool" where
  "truthy v =
     (case v of
        ANone \<Rightarrow> False
      | AStr x \<Rightarrow> x \<noteq> []
      | ABool b \<Rightarrow> b
      | AStat _ \<Rightarrow> True
      | AMimes m \<Rightarrow> m \<noteq> {}
      | ARules rs \<Rightarrow> rs \<noteq> [])"

definition dq :: string where
  "dq = [CHR 0x22]"

definition nl :: string where
  "nl = [CHR 0x0A]"

subsection \<open>The outside world\<close>

text \<open>
  Everything a method does outside the object is an event, appended to the \<open>trace\<close> of the
  world. What the outside answers is given by the other fields of the world: the bytes of
  a file and the result of \<^verbatim>\<open>os.stat\<close> (or the \<^verbatim>\<open>errno\<close> of the failure), the answers of
  \<^verbatim>\<open>guess_mime_type_from_file_contents\<close>, \<^verbatim>\<open>guess_mime_type_from_filename\<close> and
  \<^verbatim>\<open>has_office_macros\<close> of \<^verbatim>\<open>peekaboo.toolbox\<close>, the formatted time, the hash that
  \<^verbatim>\<open>next_job_hash\<close> hands out, the \<^verbatim>\<open>errno\<close> of a failing \<^verbatim>\<open>os.mkdir\<close> or
  \<^verbatim>\<open>os.symlink\<close>, the directory that \<^verbatim>\<open>tempfile.mkdtemp\<close> creates, and the exception, if
  any, of a \<^verbatim>\<open>socket.send\<close>. The last one depends on the number of events so far, so that
  the sends of one method call may fare differently.
\<close>

datatype event =
    ReadFile string
  | Stat string
  | SniffContent string
  | SniffName string
  | MacroScan string
  | ClockRead
  | NextJobHash
  | Mkdir string
  | Mkdtemp string "string option"
  | Symlink string string
  | Send nat string
  | LogWarning string
  | LogException error

record world =
  file_bytes :: "string \<Rightarrow> int + string"
  stat_of :: "string \<Rightarrow> int + stat_result"
  content_mime :: "string \<Rightarrow> string option"
  name_mime :: "string \<Rightarrow> string option"
  macros_in :: "string \<Rightarrow> bool"
  clock :: string
  job_hash_source :: string
  mkdir_errno :: "string \<Rightarrow> int option"
  mkdtemp_dir :: "string \<Rightarrow> string option \<Rightarrow> int + string"
  symlink_errno :: "string \<Rightarrow> string \<Rightarrow> int option"
  send_exception :: "nat \<Rightarrow> error option"
  trace :: "event list"

definition record_event :: "event \<Rightarrow> world \<Rightarrow> world" where
  "record_event ev w = w\<lparr>trace := trace w @ [ev]\<rparr>"

definition read_file :: "world \<Rightarrow> string \<Rightarrow> string res \<times> world" where
  "read_file w p =
     ((case file_bytes w p of Inl e \<Rightarrow> Inl (IOError e) | Inr b \<Rightarrow> Inr b),
      record_event (ReadFile p) w)"

definition os_stat :: "world \<Rightarrow> string \<Rightarrow> stat_result res \<times> world" where
  "os_stat w p =
     ((case stat_of w p of Inl e \<Rightarrow> Inl (OSError e) | Inr st \<Rightarrow> Inr st),
      record_event (Stat p) w)"

definition guess_mime_type_from_file_contents :: "world \<Rightarrow> string \<Rightarrow> string option \<times> world" where
  "guess_mime_type_from_file_contents w p = (content_mime w p, record_event (SniffContent p) w)"

definition guess_mime_type_from_filename :: "world \<Rightarrow> string \<Rightarrow> string option \<times> world" where
  "guess_mime_type_from_filename w n = (name_mime w n, record_event (SniffName n) w)"

definition has_office_macros :: "world \<Rightarrow> string \<Rightarrow> bool \<times> world" where
  "has_office_macros w p = (macros_in w p, record_event (MacroScan p) w)"

definition datetime_now :: "world \<Rightarrow> string \<times> world" where
  "datetime_now w = (clock w, record_event ClockRead w)"

definition next_job_hash :: "world \<Rightarrow> string \<times> world" where
  "next_job_hash w = (job_hash_source w, record_event NextJobHash w)"

definition os_mkdir :: "world \<Rightarrow> string \<Rightarrow> unit res \<times> world" where
  "os_mkdir w p =
     ((case mkdir_errno w p of Some e \<Rightarrow> Inl (OSError e) | None \<Rightarrow> Inr ()),
      record_event (Mkdir p) w)"

definition mkdtemp :: "world \<Rightarrow> string \<Rightarrow> string option \<Rightarrow> string res \<times> world" where
  "mkdtemp w prefix dir =
     ((case mkdtemp_dir w prefix dir of Inl e \<Rightarrow> Inl (OSError e) | Inr d \<Rightarrow> Inr d),
      record_event (Mkdtemp prefix dir) w)"

definition os_symlink :: "world \<Rightarrow> string \<Rightarrow> string \<Rightarrow> unit res \<times> world" where
  "os_symlink w src dst =
     ((case symlink_errno w src dst of Some e \<Rightarrow> Inl (OSError e) | None \<Rightarrow> Inr ()),
      record_event (Symlink src dst) w)"

definition socket_send :: "world \<Rightarrow> nat \<Rightarrow> string \<Rightarrow> unit res \<times> world" where
  "socket_send w sock msg =
     ((case send_exception w (length (trace w)) of Some e \<Rightarrow> Inl e | None \<Rightarrow> Inr ()),
      record_event (Send sock msg) w)"

subsection \<open>Construction\<close>

text \<open>
  \<^verbatim>\<open>Sample.__init__\<close>. The meta information is a dictionary, given here as the list of
  its items in iteration order. The registration with the connection map is left out.
\<close>

fun metainfo_loop :: "sample \<Rightarrow> (string \<times> attr_val) list \<Rightarrow> unit res \<times> sample" where
  "metainfo_loop s [] = (Inr (), s)"
| "metainfo_loop s ((field, v) # rest) =
     (if v \<noteq> ANone then
        (case set_attr s (''meta_info_'' @ field) v True of
           (Inl e, s1) \<Rightarrow> (Inl e, s1)
         | (Inr _, s1) \<Rightarrow> metainfo_loop s1 rest)
      else metainfo_loop s rest)"

definition Sample :: "string \<Rightarrow> (string \<times> attr_val) list \<Rightarrow> nat option \<Rightarrow> string option \<Rightarrow>
    string option \<Rightarrow> bool \<Rightarrow> unit res \<times> sample" where
  "Sample file_path metainfo sock bdir regex keep =
     metainfo_loop
       \<lparr>path = file_path, wd = None, filename = basename file_path, submit_path = None,
        cuckoo_job_id = - 1, result = Unchecked, reason = None, peekaboo_report = [],
        socket = sock, attributes = Map.empty, base_dir = bdir, job_hash_regex = regex,
        keep_mail_data = keep, initialized = False\<rparr>
       metainfo"

subsection \<open>Sending a message\<close>

text \<open>
  \<^verbatim>\<open>__send_message\<close>: the \<^verbatim>\<open>except\<close> clause catches \<^verbatim>\<open>IOError\<close> and nothing else.
\<close>

definition send_message :: "world \<Rightarrow> sample \<Rightarrow> string \<Rightarrow> unit res \<times> world" where
  "send_message w s msg =
     (case socket s of
        None \<Rightarrow> (Inr (), w)
      | Some sock \<Rightarrow>
          (case socket_send w sock msg of
             (Inr _, w1) \<Rightarrow> (Inr (), w1)
           | (Inl (IOError e), w1) \<Rightarrow>
               (if e = EPIPE then (Inr (), record_event (LogWarning msg) w1)
                else (Inr (), record_event (LogException (IOError e)) w1))
           | (Inl e, w1) \<Rightarrow> (Inl e, w1)))"

subsection \<open>Derived properties\<close>

definition sha256sum :: "pylib \<Rightarrow> world \<Rightarrow> sample \<Rightarrow> attr_val res \<times> world \<times> sample" where
  "sha256sum lib w s =
     (if \<not> has_attr s ''sha256sum'' then
        (case read_file w (path s) of
           (Inl e, w1) \<Rightarrow> (Inl e, w1, s)
         | (Inr bytes, w1) \<Rightarrow>
             (let checksum = sha256_hexdigest lib bytes in
              case set_attr s ''sha256sum'' (AStr checksum) True of
                (Inl e, s1) \<Rightarrow> (Inl e, w1, s1)
              | (Inr _, s1) \<Rightarrow> (Inr (AStr checksum), w1, s1)))
      else (get_attr s ''sha256sum'', w, s))"

definition file_extension :: "sample \<Rightarrow> attr_val res \<times> sample" where
  "file_extension s =
     (if has_attr s ''file_extension'' then (get_attr s ''file_extension'', s)
      else
        (case (if has_attr s ''meta_info_name_declared''
               then get_attr s ''meta_info_name_declared''
               else Inr (AStr (filename s))) of
           Inl e \<Rightarrow> (Inl e, s)
         | Inr (AStr fname) \<Rightarrow>
             (let file_ext = drop 1 (snd (splitext fname)) in
              case set_attr s ''file_extension'' (AStr file_ext) True of
                (Inl e, s1) \<Rightarrow> (Inl e, s1)
              | (Inr _, s1) \<Rightarrow> (Inr (AStr file_ext), s1))
         | Inr _ \<Rightarrow> (Inl IllTyped, s)))"

definition leave_alone_types_p7s :: "string list" where
  "leave_alone_types_p7s =
     [''application/pkcs7-signature'',
      ''application/x-pkcs7-signature'',
      ''application/pkcs7-mime'',
      ''application/x-pkcs7-mime'']"

text \<open>
  \<^verbatim>\<open>mimetypes\<close>, in three parts: the declared type and name (\<open>mimetypes\<close>), the S/MIME
  exception (\<open>mimetypes_decide\<close>) and the two guesses (\<open>mimetypes_sniff\<close>).
\<close>

definition mimetypes_sniff :: "world \<Rightarrow> sample \<Rightarrow> string set \<Rightarrow> attr_val \<Rightarrow>
    attr_val res \<times> world \<times> sample" where
  "mimetypes_sniff w s mime_types declared_filename =
     (case guess_mime_type_from_file_contents w (path s) of
        (content_based_mime_type, w1) \<Rightarrow>
          (let mime_types1 = (case content_based_mime_type of
                                Some t \<Rightarrow> insert t mime_types
                              | None \<Rightarrow> mime_types) in
           case declared_filename of
             AStr fname \<Rightarrow>
               (case guess_mime_type_from_filename w1 fname of
                  (name_based_mime_type, w2) \<Rightarrow>
                    (let mime_types2 = (case name_based_mime_type of
                                          Some t \<Rightarrow> insert t mime_types1
                                        | None \<Rightarrow> mime_types1) in
                     case set_attr s ''mimetypes'' (AMimes mime_types2) True of
                       (Inl e, s1) \<Rightarrow> (Inl e, w2, s1)
                     | (Inr _, s1) \<Rightarrow> (Inr (AMimes mime_types2), w2, s1)))
           | _ \<Rightarrow> (Inl IllTyped, w1, s)))"

definition mimetypes_decide :: "world \<Rightarrow> sample \<Rightarrow> string set \<Rightarrow> attr_val \<Rightarrow> attr_val \<Rightarrow>
    attr_val res \<times> world \<times> sample" where
  "mimetypes_decide w s mime_types declared_mt declared_filename =
     (if declared_filename = AStr ''smime.p7s'' \<and>
         List.member (map AStr leave_alone_types_p7s) declared_mt
      then
        (case declared_mt of
           AStr t \<Rightarrow>
             (case set_attr s ''mimetypes'' (AMimes {t}) True of
                (Inl e, s1) \<Rightarrow> (Inl e, w, s1)
              | (Inr _, s1) \<Rightarrow> (Inr (AMimes {t}), w, s1))
         | _ \<Rightarrow> (Inl IllTyped, w, s))
      else mimetypes_sniff w s mime_types declared_filename)"

definition mimetypes :: "world \<Rightarrow> sample \<Rightarrow> attr_val res \<times> world \<times> sample" where
  "mimetypes w s =
     (if has_attr s ''mimetypes'' then (get_attr s ''mimetypes'', w, s)
      else
        (case (if has_attr s ''meta_info_type_declared''
               then get_attr s ''meta_info_type_declared''
               else Inr ANone) of
           Inl e \<Rightarrow> (Inl e, w, s)
         | Inr declared_mt \<Rightarrow>
             (case (case declared_mt of
                      ANone \<Rightarrow> Some {}
                    | AStr t \<Rightarrow> Some {t}
                    | _ \<Rightarrow> None) of
                None \<Rightarrow> (Inl IllTyped, w, s)
              | Some mime_types \<Rightarrow>
                  (case (if has_attr s ''meta_info_name_declared''
                         then get_attr s ''meta_info_name_declared''
                         else Inr (AStr (filename s))) of
                     Inl e \<Rightarrow> (Inl e, w, s)
                   | Inr declared_filename \<Rightarrow>
                       mimetypes_decide w s mime_types declared_mt declared_filename))))"

definition office_macros :: "world \<Rightarrow> sample \<Rightarrow> attr_val res \<times> world \<times> sample" where
  "office_macros w s =
     (if \<not> has_attr s ''office_macros'' then
        (case has_office_macros w (path s) of
           (b, w1) \<Rightarrow>
             (case set_attr s ''office_macros'' (ABool b) True of
                (Inl e, s1) \<Rightarrow> (Inl e, w1, s1)
              | (Inr _, s1) \<Rightarrow> (get_attr s1 ''office_macros'', w1, s1)))
      else (get_attr s ''office_macros'', w, s))"

definition file_size :: "world \<Rightarrow> sample \<Rightarrow> nat res \<times> world \<times> sample" where
  "file_size w s =
     (case (if \<not> has_attr s ''file_stat'' then
              (case os_stat w (path s) of
                 (Inl e, w1) \<Rightarrow> (Inl e, w1, s)
               | (Inr st, w1) \<Rightarrow>
                   (case set_attr s ''file_stat'' (AStat st) True of
                      (r, s1) \<Rightarrow> (r, w1, s1)))
            else (Inr (), w, s)) of
        (Inl e, w1, s1) \<Rightarrow> (Inl e, w1, s1)
      | (Inr _, w1, s1) \<Rightarrow>
          (case get_attr s1 ''file_stat'' of
             Inl e \<Rightarrow> (Inl e, w1, s1)
           | Inr (AStat st) \<Rightarrow> (Inr (st_size st), w1, s1)
           | Inr _ \<Rightarrow> (Inl IllTyped, w1, s1)))"

definition analyses_time :: "world \<Rightarrow> sample \<Rightarrow> attr_val res \<times> world \<times> sample" where
  "analyses_time w s =
     (if \<not> has_attr s ''analyses_time'' then
        (case datetime_now w of
           (timestamp, w1) \<Rightarrow>
             (case set_attr s ''analyses_time'' (AStr timestamp) True of
                (Inl e, s1) \<Rightarrow> (Inl e, w1, s1)
              | (Inr _, s1) \<Rightarrow> (Inr (AStr timestamp), w1, s1)))
      else (get_attr s ''analyses_time'', w, s))"

subsection \<open>Job hash and initialisation\<close>

definition get_job_hash :: "pylib \<Rightarrow> world \<Rightarrow> sample \<Rightarrow> string res \<times> world" where
  "get_job_hash lib w s =
     (case job_hash_regex s of
        None \<Rightarrow> (Inl TypeError_None, w)
      | Some pattern \<Rightarrow>
          (case re_compile lib pattern of
             None \<Rightarrow> (Inl ReError, w)
           | Some rx \<Rightarrow>
               (let job_hash = re_sub rx (path s) in
                if job_hash = path s then
                  (case next_job_hash w of
                     (job_hash1, w1) \<Rightarrow>
                       (case base_dir s of
                          None \<Rightarrow> (Inl TypeError_None, w1)
                        | Some bdir \<Rightarrow>
                            (case os_mkdir w1 (path_join bdir job_hash1) of
                               (Inl e, w2) \<Rightarrow> (Inl e, w2)
                             | (Inr _, w2) \<Rightarrow> (Inr job_hash1, w2))))
                else (Inr job_hash, w))))"

text \<open>
  \<^verbatim>\<open>init\<close>, in three parts: the guard and the file extension (\<open>init\<close>), the body of
  \<^verbatim>\<open>if file_ext:\<close> (\<open>init_workdir\<close>), and the report lines after the flag has been set
  (\<open>init_report\<close>).
\<close>

definition init_workdir :: "pylib \<Rightarrow> world \<Rightarrow> sample \<Rightarrow> attr_val \<Rightarrow> unit res \<times> world \<times> sample" where
  "init_workdir lib w s file_ext =
     (case get_job_hash lib w s of
        (Inl e, w1) \<Rightarrow> (Inl e, w1, s)
      | (Inr job_hash, w1) \<Rightarrow>
          (case mkdtemp w1 job_hash (base_dir s) of
             (Inl e, w2) \<Rightarrow> (Inl e, w2, s)
           | (Inr d, w2) \<Rightarrow>
               (case sha256sum lib w2 (s\<lparr>wd := Some d\<rparr>) of
                  (Inl e, w3, s1) \<Rightarrow> (Inl e, w3, s1)
                | (Inr sha, w3, s1) \<Rightarrow>
                    (let sp = path_join d (py_str lib sha @ ''.'' @ py_str lib file_ext);
                         s2 = s1\<lparr>submit_path := Some sp\<rparr> in
                     case os_symlink w3 (path s2) sp of
                       (Inl e, w4) \<Rightarrow> (Inl e, w4, s2)
                     | (Inr _, w4) \<Rightarrow> (Inr (), w4, s2)))))"

definition append_meta_line :: "pylib \<Rightarrow> string \<Rightarrow> string \<Rightarrow> sample \<Rightarrow> unit res \<times> sample" where
  "append_meta_line lib key label s =
     (if has_attr s key then
        (case get_attr s key of
           Inl e \<Rightarrow> (Inl e, s)
         | Inr v \<Rightarrow>
             (Inr (), s\<lparr>peekaboo_report := peekaboo_report s @ [label @ py_str lib v @ nl]\<rparr>))
      else (Inr (), s))"

definition init_report :: "pylib \<Rightarrow> world \<Rightarrow> sample \<Rightarrow> unit res \<times> world \<times> sample" where
  "init_report lib w s =
     (case sha256sum lib w s of
        (Inl e, w1, s1) \<Rightarrow> (Inl e, w1, s1)
      | (Inr sha, w1, s1) \<Rightarrow>
          (let message = ''Datei '' @ dq @ filename s1 @ dq @ '' '' @ py_str lib sha @
                         '' wird analysiert'' @ nl;
               s2 = s1\<lparr>peekaboo_report := peekaboo_report s1 @ [message]\<rparr> in
           case send_message w1 s2 message of
             (Inl e, w2) \<Rightarrow> (Inl e, w2, s2)
           | (Inr _, w2) \<Rightarrow>
               (case append_meta_line lib ''meta_info_name_declared''
                       ''meta info: name_declared: '' s2 of
                  (Inl e, s3) \<Rightarrow> (Inl e, w2, s3)
                | (Inr _, s3) \<Rightarrow>
                    (case append_meta_line lib ''meta_info_type_declared''
                            ''meta info: type_declared: '' s3 of
                       (r, s4) \<Rightarrow> (r, w2, s4)))))"

definition init :: "pylib \<Rightarrow> world \<Rightarrow> sample \<Rightarrow> unit res \<times> world \<times> sample" where
  "init lib w s =
     (if initialized s then (Inr (), w, s)
      else
        (case file_extension (s\<lparr>submit_path := Some (path s)\<rparr>) of
           (Inl e, s1) \<Rightarrow> (Inl e, w, s1)
         | (Inr file_ext, s1) \<Rightarrow>
             (case (if truthy file_ext then init_workdir lib w s1 file_ext
                    else (Inr (), w, s1)) of
                (Inl e, w1, s2) \<Rightarrow> (Inl e, w1, s2)
              | (Inr _, w1, s2) \<Rightarrow> init_report lib w1 (s2\<lparr>initialized := True\<rparr>))))"

subsection \<open>Rule results and the report\<close>

definition add_rule_result :: "sample \<Rightarrow> rule_result \<Rightarrow> unit res \<times> sample" where
  "add_rule_result s res =
     (case (if has_attr s ''rule_results'' then get_attr s ''rule_results''
            else Inr (ARules [])) of
        Inl e \<Rightarrow> (Inl e, s)
      | Inr (ARules rule_results) \<Rightarrow>
          set_attr s ''rule_results'' (ARules (rule_results @ [res])) True
      | Inr _ \<Rightarrow> (Inl IllTyped, s))"

text \<open>The body of the \<^verbatim>\<open>for\<close> loop of \<^verbatim>\<open>determine_result\<close>, and the loop.\<close>

definition determine_step :: "sample \<Rightarrow> rule_result \<Rightarrow> sample" where
  "determine_step s rule_result =
     (if result_ge (rr_result rule_result) (result s)
      then s\<lparr>result := rr_result rule_result, reason := Some (rr_reason rule_result)\<rparr>
      else s)"

fun determine_loop :: "sample \<Rightarrow> rule_result list \<Rightarrow> sample" where
  "determine_loop s [] = s"
| "determine_loop s (rule_result # rest) = determine_loop (determine_step s rule_result) rest"

definition determine_result :: "sample \<Rightarrow> unit res \<times> sample" where
  "determine_result s =
     (case get_attr s ''rule_results'' of
        Inl e \<Rightarrow> (Inl e, s)
      | Inr (ARules rule_results) \<Rightarrow> (Inr (), determine_loop s rule_results)
      | Inr _ \<Rightarrow> (Inl IllTyped, s))"

text \<open>
  The two message texts of \<^verbatim>\<open>report\<close>: the line for a rule result,
  \<^verbatim>\<open>"Datei \"%s\": %s\n"\<close>, and the line for the final result,
  \<^verbatim>\<open>"Die Datei \"%s\" wurde als \"%s\" eingestuft\n\n"\<close>.
\<close>

definition rule_line :: "sample \<Rightarrow> rule_result \<Rightarrow> string" where
  "rule_line s v = ''Datei '' @ dq @ filename s @ dq @ '': '' @ rr_str v @ nl"

definition final_line :: "sample \<Rightarrow> result_t \<Rightarrow> string" where
  "final_line s r =
     ''Die Datei '' @ dq @ filename s @ dq @ '' wurde als '' @ dq @ result_name r @ dq @
     '' eingestuft'' @ nl @ nl"

fun report_loop :: "world \<Rightarrow> sample \<Rightarrow> rule_result list \<Rightarrow> unit res \<times> world \<times> sample" where
  "report_loop w s [] = (Inr (), w, s)"
| "report_loop w s (rule_result # rest) =
     (let message = rule_line s rule_result;
          s1 = s\<lparr>peekaboo_report := peekaboo_report s @ [message]\<rparr> in
      case send_message w s1 message of
        (Inl e, w1) \<Rightarrow> (Inl e, w1, s1)
      | (Inr _, w1) \<Rightarrow> report_loop w1 s1 rest)"

definition report :: "world \<Rightarrow> sample \<Rightarrow> unit res \<times> world \<times> sample" where
  "report w s =
     (case determine_result s of
        (Inl e, s1) \<Rightarrow> (Inl e, w, s1)
      | (Inr _, s1) \<Rightarrow>
          (case get_attr s1 ''rule_results'' of
             Inl e \<Rightarrow> (Inl e, w, s1)
           | Inr (ARules rule_results) \<Rightarrow>
               (case report_loop w s1 rule_results of
                  (Inl e, w1, s2) \<Rightarrow> (Inl e, w1, s2)
                | (Inr _, w1, s2) \<Rightarrow>
                    (let message = final_line s2 (result s2);
                         s3 = s2\<lparr>peekaboo_report := peekaboo_report s2 @ [message]\<rparr> in
                     case send_message w1 s3 message of
                       (r, w2) \<Rightarrow> (r, w2, s3)))
           | Inr _ \<Rightarrow> (Inl IllTyped, w, s1)))"

definition get_peekaboo_report :: "sample \<Rightarrow> string" where
  "get_peekaboo_report s = concat (peekaboo_report s)"

subsection \<open>Notions of the specification\<close>

text \<open>
  The aggregation of section 4.4 of the specification, in its words: the held pair
  \<open>(result, reason)\<close> is replaced by the pair of a verdict exactly when the severity of the
  verdict is greater than or equal to the severity held, and the verdicts are taken in
  order. It is compared with \<open>determine_result\<close> below.
\<close>

definition severity :: "rule_result \<Rightarrow> nat" where
  "severity v = result_value (rr_result v)"

definition aggregate_step :: "result_t \<times> string option \<Rightarrow> rule_result \<Rightarrow> result_t \<times> string option" where
  "aggregate_step held v =
     (if result_value (fst held) \<le> severity v then (rr_result v, Some (rr_reason v))
      else held)"

definition aggregate :: "result_t \<times> string option \<Rightarrow> rule_result list \<Rightarrow> result_t \<times> string option" where
  "aggregate held vs = foldl aggregate_step held vs"

text \<open>
  The declared name of section 4.3: the attribute \<^verbatim>\<open>meta_info_name_declared\<close> if present,
  else the raw file name. The declared type: \<open>Some None\<close> when the attribute
  \<^verbatim>\<open>meta_info_type_declared\<close> is absent or null, \<open>Some (Some t)\<close> when it is the string
  \<open>t\<close>, and \<open>None\<close> when it holds a value that is neither.
\<close>

definition declared_filename :: "sample \<Rightarrow> attr_val" where
  "declared_filename s =
     (case attributes s ''meta_info_name_declared'' of
        Some v \<Rightarrow> v
      | None \<Rightarrow> AStr (filename s))"

definition declared_type :: "sample \<Rightarrow> string option option" where
  "declared_type s =
     (case attributes s ''meta_info_type_declared'' of
        None \<Rightarrow> Some None
      | Some ANone \<Rightarrow> Some None
      | Some (AStr t) \<Rightarrow> Some (Some t)
      | Some _ \<Rightarrow> None)"

text \<open>A send that succeeds, or fails with an I/O error such as a broken pipe.\<close>

definition io_failure_at_most :: "error option \<Rightarrow> bool" where
  "io_failure_at_most x =
     (case x of
        None \<Rightarrow> True
      | Some (IOError _) \<Rightarrow> True
      | Some _ \<Rightarrow> False)"

subsection \<open>Objects for the worked examples\<close>

text \<open>
  A library, a world and the samples at which the theorems below are instantiated. The
  files of the example world are empty, so the only digest the example library has to know
  is the one of the empty input; its \<open>re_compile\<close> knows the two patterns of the examples,
  \<^verbatim>\<open>/tmp/([^/]+)/parts.*\<close> and \<^verbatim>\<open>amavis-([0-9]+)\<close>. Every send of the example world fails
  with a broken pipe.
\<close>

definition example_regex :: regex where
  "example_regex =
     \<lparr>before_group = map (\<lambda>c. Once (Lit c)) ''/tmp/'',
      group1 = [Plus (NotLit (CHR ''/''))],
      after_group = map (\<lambda>c. Once (Lit c)) ''/parts'' @ [Star Dot]\<rparr>"

definition amavis_regex :: regex where
  "amavis_regex =
     \<lparr>before_group = map (\<lambda>c. Once (Lit c)) ''amavis-'',
      group1 = [Plus (Range (CHR ''0'') (CHR ''9''))],
      after_group = []\<rparr>"

definition example_lib :: pylib where
  "example_lib =
     \<lparr>sha256_hexdigest =
        (\<lambda>b. ''e3b0c44298fc1c149afbf4c8996fb92427ae41e4649b934ca495991b7852b855''),
      re_compile = (\<lambda>p. if p = ''/tmp/([^/]+)/parts.*'' then Some example_regex
                         else if p = ''amavis-([0-9]+)'' then Some amavis_regex
                         else None),
      py_repr = (\<lambda>v. ''<object>'')\<rparr>"

definition example_world :: world where
  "example_world =
     \<lparr>file_bytes = (\<lambda>p. Inr []),
      stat_of = (\<lambda>p. Inr \<lparr>st_size = 0\<rparr>),
      content_mime = (\<lambda>p. Some ''application/octet-stream''),
      name_mime = (\<lambda>n. None),
      macros_in = (\<lambda>p. False),
      clock = ''20190517T093000'',
      job_hash_source = ''peekaboo-run_analysis-Ab3dE6gH'',
      mkdir_errno = (\<lambda>p. None),
      mkdtemp_dir = (\<lambda>prefix dir.
        Inr (path_join (case dir of None \<Rightarrow> ''/tmp'' | Some d \<Rightarrow> d) (prefix @ ''k3J9xQ''))),
      symlink_errno = (\<lambda>src dst. None),
      send_exception = (\<lambda>k. Some (IOError EPIPE)),
      trace = []\<rparr>"

definition example_sample :: sample where
  "example_sample =
     \<lparr>path = ''/tmp/amavis-1/parts/p001'', wd = None, filename = ''p001'', submit_path = None,
      cuckoo_job_id = - 1, result = Unchecked, reason = None, peekaboo_report = [],
      socket = Some 7,
      attributes = [''meta_info_name_declared'' \<mapsto> AStr ''invoice.doc'',
                    ''meta_info_type_declared'' \<mapsto> AStr ''application/msword''],
      base_dir = Some ''/var/lib/peekaboo'', job_hash_regex = Some ''/tmp/([^/]+)/parts.*'',
      keep_mail_data = False, initialized = False\<rparr>"

definition smime_sample :: sample where
  "smime_sample =
     example_sample\<lparr>attributes :=
       [''meta_info_name_declared'' \<mapsto> AStr ''smime.p7s'',
        ''meta_info_type_declared'' \<mapsto> AStr ''application/pkcs7-signature'']\<rparr>"

definition plain_sample :: sample where
  "plain_sample =
     example_sample\<lparr>path := ''/srv/in/p002'', filename := ''p002'',
       attributes := [''meta_info_type_declared'' \<mapsto> AStr ''text/plain'']\<rparr>"


definition verdict :: "result_t \<Rightarrow> string \<Rightarrow> rule_result" where
  "verdict r why = \<lparr>rr_result = r, rr_reason = why, rr_str = result_name r @ '': '' @ why\<rparr>"

definition judged_sample :: "rule_result list \<Rightarrow> sample" where
  "judged_sample vs =
     example_sample\<lparr>attributes :=
       (attributes example_sample)(''rule_results'' \<mapsto> ARules vs)\<rparr>"

text \<open>
  The calls of \<^verbatim>\<open>add_rule_result\<close> that the rule engine makes, one for each verdict, in
  the order of the verdicts.
\<close>

fun add_rule_results :: "sample \<Rightarrow> rule_result list \<Rightarrow> unit res \<times> sample" where
  "add_rule_results s [] = (Inr (), s)"
| "add_rule_results s (v # vs) =
     (case add_rule_result s v of
        (Inl e, s1) \<Rightarrow> (Inl e, s1)
      | (Inr _, s1) \<Rightarrow> add_rule_results s1 vs)"

text \<open>A call that returns a value, as opposed to one that ends in an exception.\<close>

definition returns_normally :: "'a res \<Rightarrow> bool" where
  "returns_normally r = (case r of Inl _ \<Rightarrow> False | Inr _ \<Rightarrow> True)"

text \<open>
  The samples on which \<^verbatim>\<open>add_rule_result\<close> has never been called: what the constructor
  gives, and what the other methods of the class make of such a sample. The attribute
  store is open to every caller, so \<^verbatim>\<open>set_attr\<close> is among them, for every key but the one
  that \<^verbatim>\<open>add_rule_result\<close> writes.
\<close>

inductive never_judged :: "sample \<Rightarrow> bool" where
  nj_Sample: "never_judged (snd (Sample file_path metainfo sock bdir regex keep))"
| nj_init: "never_judged s \<Longrightarrow> never_judged (snd (snd (init lib w s)))"
| nj_set_attr: "never_judged s \<Longrightarrow> key \<noteq> ''rule_results'' \<Longrightarrow>
     never_judged (snd (set_attr s key val override))"
| nj_remove_attr: "never_judged s \<Longrightarrow> never_judged (snd (remove_attr s key))"
| nj_sha256sum: "never_judged s \<Longrightarrow> never_judged (snd (snd (sha256sum lib w s)))"
| nj_file_extension: "never_judged s \<Longrightarrow> never_judged (snd (file_extension s))"
| nj_mimetypes: "never_judged s \<Longrightarrow> never_judged (snd (snd (mimetypes w s)))"
| nj_office_macros: "never_judged s \<Longrightarrow> never_judged (snd (snd (office_macros w s)))"
| nj_file_size: "never_judged s \<Longrightarrow> never_judged (snd (snd (file_size w s)))"
| nj_analyses_time: "never_judged s \<Longrightarrow> never_judged (snd (snd (analyses_time w s)))"

text \<open>
  The example world at a later time: the files are gone, the sniffer answers otherwise and
  the clock has moved on.
\<close>

definition changed_world :: world where
  "changed_world =
     example_world\<lparr>file_bytes := (\<lambda>p. Inl 2), stat_of := (\<lambda>p. Inl 2),
       content_mime := (\<lambda>p. Some ''text/html''), macros_in := (\<lambda>p. True),
       clock := ''20200101T000000''\<rparr>"

section \<open>Properties\<close>

subsection \<open>The attribute store\<close>

lemma remove_attr_eq:
  "remove_attr s key =
     (Inl (ValueError_no_attr key), s\<lparr>attributes := (attributes s)(key := None)\<rparr>)"
  by (auto simp: remove_attr_def has_attr_def Let_def fun_upd_idem)

text \<open>
  C3. The claim: \<^verbatim>\<open>remove_attr\<close> raises the not-found error if and only if the key is
  absent, and deletes the key and returns normally when it is present. The code deletes a
  key that is present and raises all the same: at the example sample the declared name is
  present, the call ends in the \<^verbatim>\<open>ValueError\<close>, and the key is gone afterwards.
\<close>

theorem remove_attr_present_raises:
  "has_attr example_sample ''meta_info_name_declared'' \<and>
   fst (remove_attr example_sample ''meta_info_name_declared'') =
     Inl (ValueError_no_attr ''meta_info_name_declared'') \<and>
   \<not> has_attr (snd (remove_attr example_sample ''meta_info_name_declared''))
     ''meta_info_name_declared''"
  by (simp add: remove_attr_def has_attr_def example_sample_def)

text \<open>
  C7. Setting an attribute with \<^verbatim>\<open>override=False\<close> on a key that exists fails with the
  already-exists error and leaves the object, and so the value stored under the key, as it
  was; with \<^verbatim>\<open>override=True\<close> or on a fresh key the call returns normally and the value
  is stored under the key.
\<close>

theorem set_attr_override:
  "(has_attr s key \<longrightarrow>
      set_attr s key val False = (Inl (KeyError_exists key), s)) \<and>
   (override \<or> \<not> has_attr s key \<longrightarrow>
      fst (set_attr s key val override) = Inr () \<and>
      get_attr (snd (set_attr s key val override)) key = Inr val)"
  by (simp add: set_attr_def get_attr_def)

theorem set_attr_override_witness:
  "has_attr example_sample ''meta_info_name_declared'' \<and>
   set_attr example_sample ''meta_info_name_declared'' (AStr ''other.exe'') False =
     (Inl (KeyError_exists ''meta_info_name_declared''), example_sample) \<and>
   get_attr example_sample ''meta_info_name_declared'' = Inr (AStr ''invoice.doc'') \<and>
   get_attr (snd (set_attr example_sample ''meta_info_name_declared'' (AStr ''other.exe'') True))
     ''meta_info_name_declared'' = Inr (AStr ''other.exe'') \<and>
   \<not> has_attr example_sample ''sha256sum'' \<and>
   get_attr (snd (set_attr example_sample ''sha256sum'' (AStr ''00'') False)) ''sha256sum'' =
     Inr (AStr ''00'')"
  using set_attr_override [of example_sample "''meta_info_name_declared''" "AStr ''other.exe''" True]
    set_attr_override [of example_sample "''sha256sum''" "AStr ''00''" False]
  by (simp add: has_attr_def get_attr_def example_sample_def)

subsection \<open>Aggregation of the rule results\<close>

lemma add_rule_result_fresh:
  "\<not> has_attr s ''rule_results'' \<Longrightarrow>
   add_rule_result s v =
     (Inr (), s\<lparr>attributes := (attributes s)(''rule_results'' \<mapsto> ARules [v])\<rparr>)"
  by (simp add: add_rule_result_def has_attr_def set_attr_def)

lemma add_rule_result_appends:
  "attributes s ''rule_results'' = Some (ARules us) \<Longrightarrow>
   add_rule_result s v =
     (Inr (), s\<lparr>attributes := (attributes s)(''rule_results'' \<mapsto> ARules (us @ [v]))\<rparr>)"
  by (simp add: add_rule_result_def has_attr_def get_attr_def set_attr_def)

lemma add_rule_results_appends:
  "attributes s ''rule_results'' = Some (ARules us) \<Longrightarrow>
   add_rule_results s vs =
     (Inr (), s\<lparr>attributes := (attributes s)(''rule_results'' \<mapsto> ARules (us @ vs))\<rparr>)"
proof (induction vs arbitrary: s us)
  case Nil
  then show ?case by (simp add: fun_upd_idem)
next
  case (Cons v vs)
  let ?s1 = "s\<lparr>attributes := (attributes s)(''rule_results'' \<mapsto> ARules (us @ [v]))\<rparr>"
  have step: "add_rule_result s v = (Inr (), ?s1)"
    by (rule add_rule_result_appends[OF Cons.prems])
  have "add_rule_results s (v # vs) = add_rule_results ?s1 vs"
    by (simp add: step)
  also have "\<dots> = (Inr (), ?s1\<lparr>attributes :=
      (attributes ?s1)(''rule_results'' \<mapsto> ARules ((us @ [v]) @ vs))\<rparr>)"
    by (rule Cons.IH) simp
  also have "\<dots> = (Inr (), s\<lparr>attributes :=
      (attributes s)(''rule_results'' \<mapsto> ARules (us @ v # vs))\<rparr>)"
    by (simp del: fun_upd_apply)
  finally show ?case .
qed

lemma add_rule_results_fresh:
  assumes "\<not> has_attr s ''rule_results''" and "vs \<noteq> []"
  shows "add_rule_results s vs =
           (Inr (), s\<lparr>attributes := (attributes s)(''rule_results'' \<mapsto> ARules vs)\<rparr>)"
proof (cases vs)
  case Nil
  with assms(2) show ?thesis by simp
next
  case (Cons v rest)
  let ?s1 = "s\<lparr>attributes := (attributes s)(''rule_results'' \<mapsto> ARules [v])\<rparr>"
  have "add_rule_results s vs = add_rule_results ?s1 rest"
    by (simp add: Cons add_rule_result_fresh[OF assms(1)])
  also have "\<dots> = (Inr (), ?s1\<lparr>attributes :=
      (attributes ?s1)(''rule_results'' \<mapsto> ARules ([v] @ rest))\<rparr>)"
    by (rule add_rule_results_appends) simp
  also have "\<dots> = (Inr (), s\<lparr>attributes :=
      (attributes s)(''rule_results'' \<mapsto> ARules vs)\<rparr>)"
    by (simp add: Cons del: fun_upd_apply)
  finally show ?thesis .
qed

lemma determine_loop_aggregate:
  "determine_loop s vs =
     s\<lparr>result := fst (aggregate (result s, reason s) vs),
       reason := snd (aggregate (result s, reason s) vs)\<rparr>"
proof (induction vs arbitrary: s)
  case Nil
  show ?case by (simp add: aggregate_def)
next
  case (Cons v vs)
  show ?case
    by (simp add: Cons.IH aggregate_def aggregate_step_def determine_step_def result_ge_def
        severity_def)
qed

lemma determine_result_stored:
  "attributes s ''rule_results'' = Some (ARules vs) \<Longrightarrow>
   determine_result s =
     (Inr (), s\<lparr>result := fst (aggregate (result s, reason s) vs),
                reason := snd (aggregate (result s, reason s) vs)\<rparr>)"
  by (simp add: determine_result_def get_attr_def determine_loop_aggregate)

lemma aggregate_bounded:
  "result_value (fst held) \<le> n \<Longrightarrow> \<forall>u \<in> set vs. severity u \<le> n \<Longrightarrow>
   result_value (fst (aggregate held vs)) \<le> n"
  by (induction vs arbitrary: held) (auto simp: aggregate_def aggregate_step_def severity_def)

lemma aggregate_keeps:
  "\<forall>u \<in> set vs. severity u < result_value (fst held) \<Longrightarrow> aggregate held vs = held"
  by (induction vs arbitrary: held) (auto simp: aggregate_def aggregate_step_def)

lemma aggregate_last_max:
  assumes "result_value (fst held) \<le> severity v"
    and "\<forall>u \<in> set pre. severity u \<le> severity v"
    and "\<forall>u \<in> set post. severity u < severity v"
  shows "aggregate held (pre @ v # post) = (rr_result v, Some (rr_reason v))"
proof -
  have "result_value (fst (aggregate held pre)) \<le> severity v"
    using assms(1,2) by (rule aggregate_bounded)
  then have "aggregate held (pre @ [v]) = (rr_result v, Some (rr_reason v))"
    by (simp add: aggregate_def aggregate_step_def)
  moreover have "aggregate held (pre @ v # post) = aggregate (aggregate held (pre @ [v])) post"
    by (simp add: aggregate_def)
  ultimately show ?thesis
    using assms(3) by (simp add: aggregate_keeps severity_def)
qed

text \<open>
  C1. For verdicts \<open>vs\<close> accumulated through \<^verbatim>\<open>add_rule_result\<close> on a sample that had no
  rule results, \<^verbatim>\<open>determine_result\<close> returns normally and leaves in \<open>(result, reason)\<close>
  what the aggregation of the specification computes from the pair held before: the
  verdicts are taken in order and a verdict replaces the held pair exactly when its severity
  is greater than or equal to the severity held. In particular a verdict \<open>v\<close> that no
  earlier verdict exceeds, that every later verdict stays strictly below, and that the
  result held at the start does not exceed, supplies the final result and reason: among
  the verdicts of maximal severity the last one wins.
\<close>

theorem determine_result_last_equal_wins:
  assumes "\<not> has_attr s0 ''rule_results''" and "vs \<noteq> []"
    and "add_rule_results s0 vs = (r, s)"
  shows "r = Inr () \<and>
         determine_result s =
           (Inr (), s\<lparr>result := fst (aggregate (result s0, reason s0) vs),
                      reason := snd (aggregate (result s0, reason s0) vs)\<rparr>) \<and>
         (vs = pre @ v # post \<and> result_value (result s0) \<le> severity v \<and>
          (\<forall>u \<in> set pre. severity u \<le> severity v) \<and>
          (\<forall>u \<in> set post. severity u < severity v) \<longrightarrow>
          aggregate (result s0, reason s0) vs = (rr_result v, Some (rr_reason v)))"
proof -
  have s: "r = Inr ()" "s = s0\<lparr>attributes := (attributes s0)(''rule_results'' \<mapsto> ARules vs)\<rparr>"
    using add_rule_results_fresh[OF assms(1,2)] assms(3) by simp_all
  have "attributes s ''rule_results'' = Some (ARules vs)"
    by (simp add: s(2))
  from determine_result_stored[OF this] have "determine_result s =
      (Inr (), s\<lparr>result := fst (aggregate (result s0, reason s0) vs),
                 reason := snd (aggregate (result s0, reason s0) vs)\<rparr>)"
    by (simp add: s(2))
  moreover have "vs = pre @ v # post \<and> result_value (result s0) \<le> severity v \<and>
          (\<forall>u \<in> set pre. severity u \<le> severity v) \<and>
          (\<forall>u \<in> set post. severity u < severity v) \<longrightarrow>
          aggregate (result s0, reason s0) vs = (rr_result v, Some (rr_reason v))"
    using aggregate_last_max[of "(result s0, reason s0)" v pre post] by simp
  ultimately show ?thesis using s(1) by simp
qed

theorem determine_result_last_equal_wins_witness:
  "\<not> has_attr example_sample ''rule_results'' \<and>
   add_rule_results example_sample
     [verdict Clean ''known good'', verdict Malicious ''macro'', verdict Suspicious ''odd name''] =
     (Inr (), judged_sample
       [verdict Clean ''known good'', verdict Malicious ''macro'', verdict Suspicious ''odd name'']) \<and>
   result (snd (determine_result (judged_sample
       [verdict Clean ''known good'', verdict Malicious ''macro'', verdict Suspicious ''odd name'']))) =
     Malicious \<and>
   reason (snd (determine_result (judged_sample
       [verdict Clean ''known good'', verdict Malicious ''macro'', verdict Suspicious ''odd name'']))) =
     Some ''macro'' \<and>
   reason (snd (determine_result (judged_sample
       [verdict Suspicious ''reasonA'', verdict Suspicious ''reasonB'']))) = Some ''reasonB''"
proof -
  let ?vs = "[verdict Clean ''known good'', verdict Malicious ''macro'', verdict Suspicious ''odd name'']"
  let ?ws = "[verdict Suspicious ''reasonA'', verdict Suspicious ''reasonB'']"
  have fresh: "\<not> has_attr example_sample ''rule_results''"
    by (simp add: has_attr_def example_sample_def)
  have acc: "add_rule_results example_sample ?vs = (Inr (), judged_sample ?vs)"
    unfolding judged_sample_def by (rule add_rule_results_fresh[OF fresh]) simp
  have acc2: "add_rule_results example_sample ?ws = (Inr (), judged_sample ?ws)"
    unfolding judged_sample_def by (rule add_rule_results_fresh[OF fresh]) simp
  have one: "aggregate (result example_sample, reason example_sample) ?vs = (Malicious, Some ''macro'')"
    using determine_result_last_equal_wins [OF fresh _ acc,
        of "[verdict Clean ''known good'']" "verdict Malicious ''macro''" "[verdict Suspicious ''odd name'']"]
    by (simp add: verdict_def severity_def example_sample_def)
  have two: "aggregate (result example_sample, reason example_sample) ?ws = (Suspicious, Some ''reasonB'')"
    using determine_result_last_equal_wins [OF fresh _ acc2,
        of "[verdict Suspicious ''reasonA'']" "verdict Suspicious ''reasonB''" "[]"]
    by (simp add: verdict_def severity_def example_sample_def)
  have d1: "determine_result (judged_sample ?vs) =
      (Inr (), (judged_sample ?vs)\<lparr>result := Malicious, reason := Some ''macro''\<rparr>)"
    using determine_result_last_equal_wins [OF fresh _ acc] one by simp
  have d2: "determine_result (judged_sample ?ws) =
      (Inr (), (judged_sample ?ws)\<lparr>result := Suspicious, reason := Some ''reasonB''\<rparr>)"
    using determine_result_last_equal_wins [OF fresh _ acc2] two by simp
  show ?thesis using fresh acc d1 d2 by simp
qed

subsection \<open>The MIME types\<close>

text \<open>
  C2. On a sample whose MIME types have not been determined yet, whose declared name (or,
  without a declaration, raw file name) is \<^verbatim>\<open>smime.p7s\<close> and whose declared type \<open>t\<close> is
  on the PKCS#7 list, \<^verbatim>\<open>mimetypes\<close> returns the singleton \<open>{t}\<close> and stores it. The world
  is returned as it was given: no guess from the contents or from the name is made, and
  the answers that such guesses would give play no part.
\<close>

theorem mimetypes_smime_exception:
  assumes "\<not> has_attr s ''mimetypes''"
    and "declared_filename s = AStr ''smime.p7s''"
    and "declared_type s = Some (Some t)"
    and "t \<in> set leave_alone_types_p7s"
  shows "mimetypes w s =
           (Inr (AMimes {t}), w, s\<lparr>attributes := (attributes s)(''mimetypes'' \<mapsto> AMimes {t})\<rparr>)"
proof -
  from assms(3) have td: "attributes s ''meta_info_type_declared'' = Some (AStr t)"
    by (auto simp: declared_type_def split: option.splits attr_val.splits)
  have mem: "List.member (map AStr leave_alone_types_p7s) (AStr t)"
    using assms(4) by (auto simp: )
  show ?thesis
    using assms(1,2) td mem
    by (auto simp: mimetypes_def mimetypes_decide_def has_attr_def get_attr_def set_attr_def
        declared_filename_def split: option.splits)
qed

theorem mimetypes_smime_exception_witness:
  "\<not> has_attr smime_sample ''mimetypes'' \<and>
   declared_filename smime_sample = AStr ''smime.p7s'' \<and>
   declared_type smime_sample = Some (Some ''application/pkcs7-signature'') \<and>
   content_mime example_world (path smime_sample) = Some ''application/octet-stream'' \<and>
   fst (mimetypes example_world smime_sample) = Inr (AMimes {''application/pkcs7-signature''}) \<and>
   fst (snd (mimetypes example_world smime_sample)) = example_world"
proof -
  have a: "\<not> has_attr smime_sample ''mimetypes''"
    by (simp add: has_attr_def smime_sample_def)
  have b: "declared_filename smime_sample = AStr ''smime.p7s''"
    by (simp add: declared_filename_def smime_sample_def)
  have c: "declared_type smime_sample = Some (Some ''application/pkcs7-signature'')"
    by (simp add: declared_type_def smime_sample_def)
  have d: "''application/pkcs7-signature'' \<in> set leave_alone_types_p7s"
    by (simp add: leave_alone_types_p7s_def)
  have e: "content_mime example_world (path smime_sample) = Some ''application/octet-stream''"
    by (simp add: example_world_def)
  show ?thesis
    using mimetypes_smime_exception [OF a b c d, of example_world] a b c e by simp
qed

lemma mimetypes_sniff_eq:
  "mimetypes_sniff w s m (AStr n) =
     (Inr (AMimes (m \<union> set_option (content_mime w (path s)) \<union> set_option (name_mime w n))),
      w\<lparr>trace := trace w @ [SniffContent (path s), SniffName n]\<rparr>,
      s\<lparr>attributes := (attributes s)(''mimetypes'' \<mapsto>
           AMimes (m \<union> set_option (content_mime w (path s)) \<union> set_option (name_mime w n)))\<rparr>)"
proof -
  have m: "(case name_mime w n of Some t \<Rightarrow> insert t
              (case content_mime w (path s) of Some t \<Rightarrow> insert t m | None \<Rightarrow> m)
            | None \<Rightarrow> (case content_mime w (path s) of Some t \<Rightarrow> insert t m | None \<Rightarrow> m))
           = m \<union> set_option (content_mime w (path s)) \<union> set_option (name_mime w n)"
    by (cases "name_mime w n"; cases "content_mime w (path s)") auto
  show ?thesis
    by (simp add: mimetypes_sniff_def guess_mime_type_from_file_contents_def
        guess_mime_type_from_filename_def record_event_def set_attr_def m Let_def)
qed

text \<open>
  C5. On a sample whose MIME types have not been determined yet, whose declared name is a
  string \<open>n\<close>, whose declared type is absent, null or a string, and which is outside the
  S/MIME exception, \<^verbatim>\<open>mimetypes\<close> returns and stores the union of the declared type, of the
  type guessed from the contents of the file at \<open>path\<close> and of the type guessed from \<open>n\<close>;
  a part that is absent adds nothing. Each guess is made once.
\<close>

theorem mimetypes_union:
  assumes "\<not> has_attr s ''mimetypes''"
    and "declared_filename s = AStr n"
    and "declared_type s = Some dt"
    and "\<not> (n = ''smime.p7s'' \<and> (\<exists>t. dt = Some t \<and> t \<in> set leave_alone_types_p7s))"
  shows "mimetypes w s =
           (Inr (AMimes (set_option dt \<union> set_option (content_mime w (path s)) \<union>
                         set_option (name_mime w n))),
            w\<lparr>trace := trace w @ [SniffContent (path s), SniffName n]\<rparr>,
            s\<lparr>attributes := (attributes s)(''mimetypes'' \<mapsto>
                 AMimes (set_option dt \<union> set_option (content_mime w (path s)) \<union>
                         set_option (name_mime w n)))\<rparr>)"
proof -
  define declared_mt where
    "declared_mt = (case attributes s ''meta_info_type_declared'' of None \<Rightarrow> ANone | Some v \<Rightarrow> v)"
  have mt: "(if has_attr s ''meta_info_type_declared''
             then get_attr s ''meta_info_type_declared'' else Inr ANone) = Inr declared_mt"
    by (simp add: declared_mt_def has_attr_def get_attr_def split: option.splits)
  have fn: "(if has_attr s ''meta_info_name_declared''
             then get_attr s ''meta_info_name_declared'' else Inr (AStr (filename s))) = Inr (AStr n)"
    using assms(2) by (simp add: declared_filename_def has_attr_def get_attr_def split: option.splits)
  have dt: "(case declared_mt of ANone \<Rightarrow> Some {} | AStr t \<Rightarrow> Some {t} | _ \<Rightarrow> None) = Some (set_option dt)"
    using assms(3) by (auto simp: declared_mt_def declared_type_def split: option.splits attr_val.splits)
  have ex: "\<not> (AStr n = AStr ''smime.p7s'' \<and> List.member (map AStr leave_alone_types_p7s) declared_mt)"
    using assms(3,4)
    by (auto simp: declared_mt_def declared_type_def split: option.splits attr_val.splits)
  have "mimetypes w s = mimetypes_decide w s (set_option dt) declared_mt (AStr n)"
    using assms(1) by (simp add: mimetypes_def mt fn dt)
  also have "\<dots> = mimetypes_sniff w s (set_option dt) (AStr n)"
    using ex by (simp only: mimetypes_decide_def if_False)
  finally show ?thesis by (simp only: mimetypes_sniff_eq)
qed

theorem mimetypes_union_witness:
  "\<not> has_attr plain_sample ''mimetypes'' \<and>
   declared_filename plain_sample = AStr ''p002'' \<and>
   declared_type plain_sample = Some (Some ''text/plain'') \<and>
   content_mime example_world (path plain_sample) = Some ''application/octet-stream'' \<and>
   name_mime example_world ''p002'' = None \<and>
   fst (mimetypes example_world plain_sample) =
     Inr (AMimes {''text/plain'', ''application/octet-stream''}) \<and>
   trace (fst (snd (mimetypes example_world plain_sample))) =
     [SniffContent ''/srv/in/p002'', SniffName ''p002'']"
proof -
  have a: "\<not> has_attr plain_sample ''mimetypes''"
    by (simp add: has_attr_def plain_sample_def)
  have b: "declared_filename plain_sample = AStr ''p002''"
    by (simp add: declared_filename_def plain_sample_def)
  have c: "declared_type plain_sample = Some (Some ''text/plain'')"
    by (simp add: declared_type_def plain_sample_def)
  have d: "\<not> (''p002'' = ''smime.p7s'' \<and>
      (\<exists>t. Some ''text/plain'' = Some t \<and> t \<in> set leave_alone_types_p7s))"
    by simp
  have e: "content_mime example_world (path plain_sample) = Some ''application/octet-stream''"
    "name_mime example_world ''p002'' = None" "trace example_world = []"
    "path plain_sample = ''/srv/in/p002''"
    by (simp_all add: example_world_def plain_sample_def)
  show ?thesis
    using mimetypes_union [OF a b c d, of example_world] a b c e by (simp add: insert_commute)
qed

subsection \<open>What the methods change in the object\<close>

lemma set_attr_frame:
  "set_attr s key val override = (r, s1) \<Longrightarrow>
   \<exists>a. s1 = s\<lparr>attributes := a\<rparr> \<and> (\<forall>k. k \<noteq> key \<longrightarrow> a k = attributes s k)"
  by (cases "has_attr s key \<and> \<not> override")
     (auto simp: set_attr_def intro: exI[of _ "attributes s"])

lemma sha256sum_frame:
  "sha256sum lib w s = (r, w1, s1) \<Longrightarrow>
   \<exists>a. s1 = s\<lparr>attributes := a\<rparr> \<and> (\<forall>k. k \<noteq> ''sha256sum'' \<longrightarrow> a k = attributes s k)"
  by (auto simp: sha256sum_def set_attr_def read_file_def Let_def
      split: if_splits sum.splits prod.splits intro: exI[of _ "attributes s"])

lemma file_extension_frame:
  "file_extension s = (r, s1) \<Longrightarrow>
   \<exists>a. s1 = s\<lparr>attributes := a\<rparr> \<and> (\<forall>k. k \<noteq> ''file_extension'' \<longrightarrow> a k = attributes s k)"
  by (auto simp: file_extension_def set_attr_def Let_def
      split: if_splits sum.splits prod.splits attr_val.splits intro: exI[of _ "attributes s"])

lemma append_meta_line_frame:
  "append_meta_line lib key label s = (r, s1) \<Longrightarrow>
   \<exists>ls. s1 = s\<lparr>peekaboo_report := peekaboo_report s @ ls\<rparr>"
  by (auto simp: append_meta_line_def split: if_splits sum.splits intro: exI[of _ "[]"])


lemma mimetypes_sniff_frame:
  "mimetypes_sniff w s m dn = (r, w1, s1) \<Longrightarrow>
   \<exists>a. s1 = s\<lparr>attributes := a\<rparr> \<and> (\<forall>k. k \<noteq> ''mimetypes'' \<longrightarrow> a k = attributes s k)"
  by (cases dn)
     (auto simp: mimetypes_sniff_def set_attr_def Let_def
        guess_mime_type_from_file_contents_def guess_mime_type_from_filename_def
        intro: exI[of _ "attributes s"])

lemma mimetypes_decide_frame:
  "mimetypes_decide w s m dt dn = (r, w1, s1) \<Longrightarrow>
   \<exists>a. s1 = s\<lparr>attributes := a\<rparr> \<and> (\<forall>k. k \<noteq> ''mimetypes'' \<longrightarrow> a k = attributes s k)"
proof (cases "dn = AStr ''smime.p7s'' \<and> List.member (map AStr leave_alone_types_p7s) dt")
  case True
  assume "mimetypes_decide w s m dt dn = (r, w1, s1)"
  with True show ?thesis
    by (cases dt) (auto simp: mimetypes_decide_def set_attr_def intro: exI[of _ "attributes s"])
next
  case False
  assume "mimetypes_decide w s m dt dn = (r, w1, s1)"
  with False have "mimetypes_sniff w s m dn = (r, w1, s1)"
    by (simp only: mimetypes_decide_def if_False)
  then show ?thesis by (rule mimetypes_sniff_frame)
qed

lemma mimetypes_frame:
  "mimetypes w s = (r, w1, s1) \<Longrightarrow>
   \<exists>a. s1 = s\<lparr>attributes := a\<rparr> \<and> (\<forall>k. k \<noteq> ''mimetypes'' \<longrightarrow> a k = attributes s k)"
  unfolding mimetypes_def
  by (auto split: if_splits sum.splits option.splits dest: mimetypes_decide_frame
      intro: exI[of _ "attributes s"])

lemma office_macros_frame:
  "office_macros w s = (r, w1, s1) \<Longrightarrow>
   \<exists>a. s1 = s\<lparr>attributes := a\<rparr> \<and> (\<forall>k. k \<noteq> ''office_macros'' \<longrightarrow> a k = attributes s k)"
  by (auto simp: office_macros_def set_attr_def has_office_macros_def
      split: if_splits sum.splits prod.splits intro: exI[of _ "attributes s"])

lemma file_size_frame:
  "file_size w s = (r, w1, s1) \<Longrightarrow>
   \<exists>a. s1 = s\<lparr>attributes := a\<rparr> \<and> (\<forall>k. k \<noteq> ''file_stat'' \<longrightarrow> a k = attributes s k)"
  by (auto simp: file_size_def set_attr_def os_stat_def
      split: if_splits sum.splits prod.splits attr_val.splits intro: exI[of _ "attributes s"])

lemma analyses_time_frame:
  "analyses_time w s = (r, w1, s1) \<Longrightarrow>
   \<exists>a. s1 = s\<lparr>attributes := a\<rparr> \<and> (\<forall>k. k \<noteq> ''analyses_time'' \<longrightarrow> a k = attributes s k)"
  by (auto simp: analyses_time_def set_attr_def datetime_now_def
      split: if_splits sum.splits prod.splits intro: exI[of _ "attributes s"])


subsection \<open>Initialisation\<close>

lemma init_report_flag:
  assumes "init_report lib w s = (r, w1, s1)"
  shows "initialized s1 = initialized s"
proof -
  obtain rs ws ss where sh: "sha256sum lib w s = (rs, ws, ss)"
    by (cases "sha256sum lib w s") auto
  from sha256sum_frame[OF sh] have f: "initialized ss = initialized s" by auto
  show ?thesis
    using assms f
    by (auto simp: init_report_def sh Let_def
        split: sum.splits prod.splits dest!: append_meta_line_frame)
qed

lemma init_sets_flag:
  assumes "init lib w s = (Inr (), w1, s1)"
  shows "initialized s1"
proof (cases "initialized s")
  case True
  with assms show ?thesis by (simp add: init_def)
next
  case False
  with assms obtain w2 s2 where "init_report lib w2 (s2\<lparr>initialized := True\<rparr>) = (Inr (), w1, s1)"
    by (auto simp: init_def split: sum.splits prod.splits if_splits)
  from init_report_flag[OF this] show ?thesis by simp
qed

text \<open>
  C6. \<^verbatim>\<open>init\<close> is idempotent: after a call of \<^verbatim>\<open>init\<close> that has returned normally, a
  further call returns at once, whatever the world is by then. It hands back the world and
  the object as they were given, so nothing is done in the file system or on the socket,
  and the submit path, the working directory and the report stay as they are.
\<close>

theorem init_idempotent:
  assumes "init lib w s = (Inr (), w1, s1)"
  shows "init lib2 w2 s1 = (Inr (), w2, s1)"
  using init_sets_flag[OF assms] by (simp add: init_def)

subsection \<open>The job hash\<close>







subsection \<open>Reporting without rule results\<close>

lemma metainfo_loop_keeps:
  "\<not> has_attr s ''rule_results'' \<Longrightarrow> \<not> has_attr (snd (metainfo_loop s mi)) ''rule_results''"
proof (induction s mi rule: metainfo_loop.induct)
  case (1 s)
  then show ?case by simp
next
  case (2 s field v rest)
  show ?case
  proof (cases "v = ANone")
    case True
    with 2 show ?thesis by simp
  next
    case False
    let ?s1 = "s\<lparr>attributes := (attributes s)(''meta_info_'' @ field \<mapsto> v)\<rparr>"
    have st: "set_attr s (''meta_info_'' @ field) v True = (Inr (), ?s1)"
      by (simp add: set_attr_def)
    have "\<not> has_attr ?s1 ''rule_results''"
      using "2.prems" by (simp add: has_attr_def)
    with "2.IH"(1)[OF False st[symmetric]] False st show ?thesis by simp
  qed
qed

lemma Sample_no_rule_results:
  "\<not> has_attr (snd (Sample file_path metainfo sock bdir regex keep)) ''rule_results''"
  unfolding Sample_def by (rule metainfo_loop_keeps) (simp add: has_attr_def)

lemma init_workdir_frame:
  assumes "init_workdir lib w s fe = (r, w1, s1)"
  shows "attributes s1 ''rule_results'' = attributes s ''rule_results''"
  using assms
  by (auto simp: init_workdir_def Let_def split: sum.splits prod.splits
      dest!: sha256sum_frame)

lemma init_report_frame:
  assumes "init_report lib w s = (r, w1, s1)"
  shows "attributes s1 ''rule_results'' = attributes s ''rule_results''"
  using assms
  by (auto simp: init_report_def Let_def split: sum.splits prod.splits
      dest!: sha256sum_frame append_meta_line_frame)

lemma init_frame:
  assumes "init lib w s = (r, w1, s1)"
  shows "attributes s1 ''rule_results'' = attributes s ''rule_results''"
proof (cases "initialized s")
  case True
  with assms show ?thesis by (simp add: init_def)
next
  case False
  obtain rf sf where fe: "file_extension (s\<lparr>submit_path := Some (path s)\<rparr>) = (rf, sf)"
    by (cases "file_extension (s\<lparr>submit_path := Some (path s)\<rparr>)") auto
  from file_extension_frame[OF fe]
  have a: "attributes sf ''rule_results'' = attributes s ''rule_results''" by auto
  show ?thesis
    using assms False a
    by (auto simp: init_def fe split: sum.splits prod.splits if_splits
        dest!: init_workdir_frame init_report_frame)
qed

lemma never_judged_no_rule_results:
  "never_judged s \<Longrightarrow> \<not> has_attr s ''rule_results''"
proof (induction rule: never_judged.induct)
  case (nj_Sample file_path metainfo sock bdir regex keep)
  show ?case by (rule Sample_no_rule_results)
next
  case (nj_init s lib w)
  obtain r w1 s1 where i: "init lib w s = (r, w1, s1)" by (cases "init lib w s") auto
  from init_frame[OF i] nj_init.IH show ?case by (simp add: i has_attr_def)
next
  case (nj_set_attr s key val override)
  obtain r s1 where i: "set_attr s key val override = (r, s1)"
    by (cases "set_attr s key val override") auto
  from set_attr_frame[OF i] nj_set_attr show ?case by (auto simp: i has_attr_def)
next
  case (nj_remove_attr s key)
  then show ?case by (simp add: remove_attr_eq has_attr_def)
next
  case (nj_sha256sum s lib w)
  obtain r w1 s1 where i: "sha256sum lib w s = (r, w1, s1)" by (cases "sha256sum lib w s") auto
  from sha256sum_frame[OF i] nj_sha256sum.IH show ?case by (auto simp: i has_attr_def)
next
  case (nj_file_extension s)
  obtain r s1 where i: "file_extension s = (r, s1)" by (cases "file_extension s") auto
  from file_extension_frame[OF i] nj_file_extension.IH show ?case by (auto simp: i has_attr_def)
next
  case (nj_mimetypes s w)
  obtain r w1 s1 where i: "mimetypes w s = (r, w1, s1)" by (cases "mimetypes w s") auto
  from mimetypes_frame[OF i] nj_mimetypes.IH show ?case by (auto simp: i has_attr_def)
next
  case (nj_office_macros s w)
  obtain r w1 s1 where i: "office_macros w s = (r, w1, s1)" by (cases "office_macros w s") auto
  from office_macros_frame[OF i] nj_office_macros.IH show ?case by (auto simp: i has_attr_def)
next
  case (nj_file_size s w)
  obtain r w1 s1 where i: "file_size w s = (r, w1, s1)" by (cases "file_size w s") auto
  from file_size_frame[OF i] nj_file_size.IH show ?case by (auto simp: i has_attr_def)
next
  case (nj_analyses_time s w)
  obtain r w1 s1 where i: "analyses_time w s = (r, w1, s1)" by (cases "analyses_time w s") auto
  from analyses_time_frame[OF i] nj_analyses_time.IH show ?case by (auto simp: i has_attr_def)
qed

text \<open>
  C10. On a sample on which \<^verbatim>\<open>add_rule_result\<close> has never been called, \<^verbatim>\<open>report\<close> and
  \<^verbatim>\<open>determine_result\<close> end in the \<^verbatim>\<open>KeyError\<close> of \<^verbatim>\<open>get_attr\<close> for the key
  \<^verbatim>\<open>rule_results\<close>. The world and the object come back as they were: no line has been
  appended to the report or sent, and result and reason are unchanged.
\<close>

theorem report_without_rule_results:
  assumes "never_judged s"
  shows "report w s = (Inl (KeyError_not_found ''rule_results''), w, s) \<and>
         determine_result s = (Inl (KeyError_not_found ''rule_results''), s)"
  using never_judged_no_rule_results[OF assms]
  by (simp add: report_def determine_result_def get_attr_def has_attr_def)

subsection \<open>Derived properties are computed once\<close>

lemma sha256sum_cached:
  assumes "returns_normally (fst (sha256sum lib w s))"
  shows "sha256sum lib2 w2 (snd (snd (sha256sum lib w s))) =
           (fst (sha256sum lib w s), w2, snd (snd (sha256sum lib w s))) \<and>
         (fst (snd (sha256sum lib w s)) = w \<or>
          fst (snd (sha256sum lib w s)) = w\<lparr>trace := trace w @ [ReadFile (path s)]\<rparr>)"
proof (cases "has_attr s ''sha256sum''")
  case True
  then show ?thesis by (simp add: sha256sum_def)
next
  case False
  with assms obtain b where b: "file_bytes w (path s) = Inr b"
    by (cases "file_bytes w (path s)")
       (auto simp: sha256sum_def read_file_def returns_normally_def)
  show ?thesis
    using False
    by (simp add: sha256sum_def read_file_def b set_attr_def has_attr_def get_attr_def
        record_event_def Let_def)
qed

lemma file_extension_cached:
  assumes "returns_normally (fst (file_extension s))"
  shows "file_extension (snd (file_extension s)) = (fst (file_extension s), snd (file_extension s))"
proof (cases "has_attr s ''file_extension''")
  case True
  then show ?thesis by (simp add: file_extension_def)
next
  case False
  define dn where "dn = (if has_attr s ''meta_info_name_declared''
      then get_attr s ''meta_info_name_declared'' else Inr (AStr (filename s)))"
  from assms False obtain fname where f: "dn = Inr (AStr fname)"
    unfolding dn_def
    by (auto simp: file_extension_def returns_normally_def split: sum.splits attr_val.splits)
  have "file_extension s =
      (Inr (AStr (drop 1 (snd (splitext fname)))),
       s\<lparr>attributes := (attributes s)(''file_extension'' \<mapsto> AStr (drop 1 (snd (splitext fname))))\<rparr>)"
    using False f unfolding dn_def by (simp add: file_extension_def set_attr_def Let_def)
  then show ?thesis
    by (simp add: file_extension_def has_attr_def get_attr_def)
qed

lemma mimetypes_cached_sniff:
  assumes "returns_normally (fst (mimetypes_sniff w s m dn))"
  shows "\<exists>n v. dn = AStr n \<and>
           mimetypes_sniff w s m dn =
             (Inr v, w\<lparr>trace := trace w @ [SniffContent (path s), SniffName n]\<rparr>,
              s\<lparr>attributes := (attributes s)(''mimetypes'' \<mapsto> v)\<rparr>)"
proof (cases dn)
  case (AStr n)
  then show ?thesis by (simp add: mimetypes_sniff_eq)
qed (use assms in \<open>simp_all add: mimetypes_sniff_def returns_normally_def
      guess_mime_type_from_file_contents_def\<close>)

lemma mimetypes_cached_decide:
  assumes "returns_normally (fst (mimetypes_decide w s m dt dn))"
  shows "\<exists>w1 v. mimetypes_decide w s m dt dn =
             (Inr v, w1, s\<lparr>attributes := (attributes s)(''mimetypes'' \<mapsto> v)\<rparr>) \<and>
           (w1 = w \<or> (\<exists>n. dn = AStr n \<and>
              w1 = w\<lparr>trace := trace w @ [SniffContent (path s), SniffName n]\<rparr>))"
proof (cases "dn = AStr ''smime.p7s'' \<and> List.member (map AStr leave_alone_types_p7s) dt")
  case True
  with assms show ?thesis
    by (cases dt) (auto simp: mimetypes_decide_def set_attr_def returns_normally_def)
next
  case False
  then have e: "mimetypes_decide w s m dt dn = mimetypes_sniff w s m dn"
    by (simp only: mimetypes_decide_def if_False)
  from mimetypes_cached_sniff[OF assms[unfolded e]] show ?thesis
    unfolding e by auto
qed

lemma mimetypes_cached:
  assumes "returns_normally (fst (mimetypes w s))"
  shows "mimetypes w2 (snd (snd (mimetypes w s))) =
           (fst (mimetypes w s), w2, snd (snd (mimetypes w s))) \<and>
         (fst (snd (mimetypes w s)) = w \<or>
          (\<exists>n. declared_filename s = AStr n \<and>
             fst (snd (mimetypes w s)) =
               w\<lparr>trace := trace w @ [SniffContent (path s), SniffName n]\<rparr>))"
proof (cases "has_attr s ''mimetypes''")
  case True
  then show ?thesis by (simp add: mimetypes_def)
next
  case False
  define dn where "dn = (if has_attr s ''meta_info_name_declared''
      then get_attr s ''meta_info_name_declared'' else Inr (AStr (filename s)))"
  have dn: "dn = Inr (declared_filename s)"
    by (simp add: dn_def declared_filename_def has_attr_def get_attr_def split: option.splits)
  from assms False obtain m dt where
    d: "mimetypes w s = mimetypes_decide w s m dt (declared_filename s)"
    unfolding mimetypes_def dn_def[symmetric] dn
    by (auto simp: returns_normally_def split: sum.splits option.splits)
  from mimetypes_cached_decide[OF assms[unfolded d]] obtain w1 v where
    r: "mimetypes w s = (Inr v, w1, s\<lparr>attributes := (attributes s)(''mimetypes'' \<mapsto> v)\<rparr>)"
    and w: "w1 = w \<or> (\<exists>n. declared_filename s = AStr n \<and>
              w1 = w\<lparr>trace := trace w @ [SniffContent (path s), SniffName n]\<rparr>)"
    unfolding d by blast
  show ?thesis
    using w by (simp add: r) (simp add: mimetypes_def has_attr_def get_attr_def)
qed

lemma office_macros_cached:
  assumes "returns_normally (fst (office_macros w s))"
  shows "office_macros w2 (snd (snd (office_macros w s))) =
           (fst (office_macros w s), w2, snd (snd (office_macros w s))) \<and>
         (fst (snd (office_macros w s)) = w \<or>
          fst (snd (office_macros w s)) = w\<lparr>trace := trace w @ [MacroScan (path s)]\<rparr>)"
proof (cases "has_attr s ''office_macros''")
  case True
  then show ?thesis by (simp add: office_macros_def)
next
  case False
  then show ?thesis
    by (simp add: office_macros_def has_office_macros_def set_attr_def has_attr_def
        get_attr_def record_event_def)
qed

lemma analyses_time_cached:
  assumes "returns_normally (fst (analyses_time w s))"
  shows "analyses_time w2 (snd (snd (analyses_time w s))) =
           (fst (analyses_time w s), w2, snd (snd (analyses_time w s))) \<and>
         (fst (snd (analyses_time w s)) = w \<or>
          fst (snd (analyses_time w s)) = w\<lparr>trace := trace w @ [ClockRead]\<rparr>)"
proof (cases "has_attr s ''analyses_time''")
  case True
  then show ?thesis by (simp add: analyses_time_def)
next
  case False
  then show ?thesis
    by (simp add: analyses_time_def datetime_now_def set_attr_def has_attr_def
        get_attr_def record_event_def)
qed

lemma file_size_cached:
  assumes "returns_normally (fst (file_size w s))"
  shows "file_size w2 (snd (snd (file_size w s))) =
           (fst (file_size w s), w2, snd (snd (file_size w s))) \<and>
         (fst (snd (file_size w s)) = w \<or>
          fst (snd (file_size w s)) = w\<lparr>trace := trace w @ [Stat (path s)]\<rparr>)"
proof (cases "has_attr s ''file_stat''")
  case True
  with assms show ?thesis
    by (auto simp: file_size_def returns_normally_def split: sum.splits attr_val.splits)
next
  case False
  with assms obtain st where st: "stat_of w (path s) = Inr st"
    by (cases "stat_of w (path s)")
       (auto simp: file_size_def os_stat_def returns_normally_def)
  show ?thesis
    using False
    by (simp add: file_size_def os_stat_def st set_attr_def has_attr_def get_attr_def
        record_event_def)
qed


lemma sha256sum_first_access:
  assumes "\<not> has_attr s ''sha256sum''" and "file_bytes w (path s) = Inr b"
  shows "sha256sum lib w s =
           (Inr (AStr (sha256_hexdigest lib b)),
            w\<lparr>trace := trace w @ [ReadFile (path s)]\<rparr>,
            s\<lparr>attributes := (attributes s)(''sha256sum'' \<mapsto> AStr (sha256_hexdigest lib b))\<rparr>)"
  using assms
  by (simp add: sha256sum_def read_file_def record_event_def set_attr_def Let_def)

lemma sha256sum_hit:
  "has_attr s ''sha256sum'' \<Longrightarrow> sha256sum lib w s = (get_attr s ''sha256sum'', w, s)"
  by (simp add: sha256sum_def)

lemma file_extension_first_access:
  assumes "\<not> has_attr s ''file_extension''" and "declared_filename s = AStr n"
  shows "file_extension s =
           (Inr (AStr (drop 1 (snd (splitext n)))),
            s\<lparr>attributes := (attributes s)(''file_extension'' \<mapsto>
                 AStr (drop 1 (snd (splitext n))))\<rparr>)"
proof -
  have "(if has_attr s ''meta_info_name_declared''
         then get_attr s ''meta_info_name_declared'' else Inr (AStr (filename s))) = Inr (AStr n)"
    using assms(2)
    by (simp add: declared_filename_def has_attr_def get_attr_def split: option.splits)
  then show ?thesis
    using assms(1) by (simp add: file_extension_def set_attr_def Let_def)
qed

lemma file_extension_hit:
  "has_attr s ''file_extension'' \<Longrightarrow> file_extension s = (get_attr s ''file_extension'', s)"
  by (simp add: file_extension_def)

lemma mimetypes_first_access:
  assumes "\<not> has_attr s ''mimetypes''"
    and "declared_filename s = AStr n"
    and "declared_type s = Some dt"
  shows "mimetypes w s =
           (if n = ''smime.p7s'' \<and> (\<exists>t. dt = Some t \<and> t \<in> set leave_alone_types_p7s)
            then (Inr (AMimes (set_option dt)), w,
                  s\<lparr>attributes := (attributes s)(''mimetypes'' \<mapsto> AMimes (set_option dt))\<rparr>)
            else (Inr (AMimes (set_option dt \<union> set_option (content_mime w (path s)) \<union>
                               set_option (name_mime w n))),
                  w\<lparr>trace := trace w @ [SniffContent (path s), SniffName n]\<rparr>,
                  s\<lparr>attributes := (attributes s)(''mimetypes'' \<mapsto>
                       AMimes (set_option dt \<union> set_option (content_mime w (path s)) \<union>
                               set_option (name_mime w n)))\<rparr>))"
proof -
  define declared_mt where
    "declared_mt = (case attributes s ''meta_info_type_declared'' of None \<Rightarrow> ANone | Some v \<Rightarrow> v)"
  have mt: "(if has_attr s ''meta_info_type_declared''
             then get_attr s ''meta_info_type_declared'' else Inr ANone) = Inr declared_mt"
    by (simp add: declared_mt_def has_attr_def get_attr_def split: option.splits)
  have fn: "(if has_attr s ''meta_info_name_declared''
             then get_attr s ''meta_info_name_declared'' else Inr (AStr (filename s))) =
            Inr (AStr n)"
    using assms(2)
    by (simp add: declared_filename_def has_attr_def get_attr_def split: option.splits)
  have dt: "(case declared_mt of ANone \<Rightarrow> Some {} | AStr t \<Rightarrow> Some {t} | _ \<Rightarrow> None) =
            Some (set_option dt)"
    using assms(3)
    by (auto simp: declared_mt_def declared_type_def split: option.splits attr_val.splits)
  have dec: "mimetypes w s = mimetypes_decide w s (set_option dt) declared_mt (AStr n)"
    using assms(1) by (simp add: mimetypes_def mt fn dt)
  have mem: "List.member (map AStr leave_alone_types_p7s) declared_mt \<longleftrightarrow>
             (\<exists>t. dt = Some t \<and> t \<in> set leave_alone_types_p7s)"
    using assms(3)
    by (auto simp: declared_mt_def declared_type_def split: option.splits attr_val.splits)
  show ?thesis
  proof (cases "n = ''smime.p7s'' \<and> (\<exists>t. dt = Some t \<and> t \<in> set leave_alone_types_p7s)")
    case True
    then obtain t where t: "dt = Some t" "t \<in> set leave_alone_types_p7s" by blast
    have "declared_mt = AStr t"
      using assms(3) t(1)
      by (auto simp: declared_mt_def declared_type_def split: option.splits attr_val.splits)
    with True mem show ?thesis
      by (simp add: dec mimetypes_decide_def set_attr_def t(1))
  next
    case False
    with mem have "\<not> (AStr n = AStr ''smime.p7s'' \<and>
        List.member (map AStr leave_alone_types_p7s) declared_mt)"
      by simp
    then have "mimetypes_decide w s (set_option dt) declared_mt (AStr n) =
        mimetypes_sniff w s (set_option dt) (AStr n)"
      by (simp only: mimetypes_decide_def if_False)
    with False show ?thesis
      by (simp only: dec mimetypes_sniff_eq if_False)
  qed
qed

lemma mimetypes_hit:
  "has_attr s ''mimetypes'' \<Longrightarrow> mimetypes w s = (get_attr s ''mimetypes'', w, s)"
  by (simp add: mimetypes_def)

lemma office_macros_first_access:
  assumes "\<not> has_attr s ''office_macros''"
  shows "office_macros w s =
           (Inr (ABool (macros_in w (path s))),
            w\<lparr>trace := trace w @ [MacroScan (path s)]\<rparr>,
            s\<lparr>attributes := (attributes s)(''office_macros'' \<mapsto> ABool (macros_in w (path s)))\<rparr>)"
  using assms
  by (simp add: office_macros_def has_office_macros_def record_event_def set_attr_def
      get_attr_def)

lemma office_macros_hit:
  "has_attr s ''office_macros'' \<Longrightarrow> office_macros w s = (get_attr s ''office_macros'', w, s)"
  by (simp add: office_macros_def)

lemma analyses_time_first_access:
  assumes "\<not> has_attr s ''analyses_time''"
  shows "analyses_time w s =
           (Inr (AStr (clock w)), w\<lparr>trace := trace w @ [ClockRead]\<rparr>,
            s\<lparr>attributes := (attributes s)(''analyses_time'' \<mapsto> AStr (clock w))\<rparr>)"
  using assms
  by (simp add: analyses_time_def datetime_now_def record_event_def set_attr_def)

lemma analyses_time_hit:
  "has_attr s ''analyses_time'' \<Longrightarrow> analyses_time w s = (get_attr s ''analyses_time'', w, s)"
  by (simp add: analyses_time_def)

lemma file_size_first_access:
  assumes "\<not> has_attr s ''file_stat''" and "stat_of w (path s) = Inr st"
  shows "file_size w s =
           (Inr (st_size st), w\<lparr>trace := trace w @ [Stat (path s)]\<rparr>,
            s\<lparr>attributes := (attributes s)(''file_stat'' \<mapsto> AStat st)\<rparr>)"
  using assms
  by (simp add: file_size_def os_stat_def record_event_def set_attr_def get_attr_def)

lemma file_size_hit:
  "attributes s ''file_stat'' = Some (AStat st) \<Longrightarrow> file_size w s = (Inr (st_size st), w, s)"
  by (simp add: file_size_def has_attr_def get_attr_def)

text \<open>
  C8. Each of the six derived properties computes its value on the first access and keeps
  it. On a sample that does not hold the attribute yet, the access does the underlying work
  once (the read of the file, the look at the name, the two guesses, the stat, the reading
  of the clock, the scan for macros), returns the value that comes from it and stores it
  under the key of the property; this is stated as an equation for the outcome, the world
  and the object. On a sample that holds the attribute, the access returns what is stored
  and touches neither the world nor the object. So once an access has returned a value,
  the next access returns that same value, whatever the world is by then, and the work has
  been done at most once.
\<close>

theorem derived_properties_cached:
  "(\<not> has_attr s ''sha256sum'' \<and> file_bytes w (path s) = Inr b \<longrightarrow>
      sha256sum lib w s =
        (Inr (AStr (sha256_hexdigest lib b)), w\<lparr>trace := trace w @ [ReadFile (path s)]\<rparr>,
         s\<lparr>attributes := (attributes s)(''sha256sum'' \<mapsto> AStr (sha256_hexdigest lib b))\<rparr>)) \<and>
   (has_attr s ''sha256sum'' \<longrightarrow> sha256sum lib w s = (get_attr s ''sha256sum'', w, s)) \<and>
   (returns_normally (fst (sha256sum lib w s)) \<longrightarrow>
      sha256sum lib' w' (snd (snd (sha256sum lib w s))) =
        (fst (sha256sum lib w s), w', snd (snd (sha256sum lib w s))) \<and>
      (fst (snd (sha256sum lib w s)) = w \<or>
       fst (snd (sha256sum lib w s)) = w\<lparr>trace := trace w @ [ReadFile (path s)]\<rparr>)) \<and>
   (\<not> has_attr s ''file_extension'' \<and> declared_filename s = AStr n \<longrightarrow>
      file_extension s =
        (Inr (AStr (drop 1 (snd (splitext n)))),
         s\<lparr>attributes := (attributes s)(''file_extension'' \<mapsto>
              AStr (drop 1 (snd (splitext n))))\<rparr>)) \<and>
   (has_attr s ''file_extension'' \<longrightarrow>
      file_extension s = (get_attr s ''file_extension'', s)) \<and>
   (returns_normally (fst (file_extension s)) \<longrightarrow>
      file_extension (snd (file_extension s)) =
        (fst (file_extension s), snd (file_extension s))) \<and>
   (\<not> has_attr s ''mimetypes'' \<and> declared_filename s = AStr n \<and> declared_type s = Some dt \<longrightarrow>
      mimetypes w s =
        (if n = ''smime.p7s'' \<and> (\<exists>t. dt = Some t \<and> t \<in> set leave_alone_types_p7s)
         then (Inr (AMimes (set_option dt)), w,
               s\<lparr>attributes := (attributes s)(''mimetypes'' \<mapsto> AMimes (set_option dt))\<rparr>)
         else (Inr (AMimes (set_option dt \<union> set_option (content_mime w (path s)) \<union>
                            set_option (name_mime w n))),
               w\<lparr>trace := trace w @ [SniffContent (path s), SniffName n]\<rparr>,
               s\<lparr>attributes := (attributes s)(''mimetypes'' \<mapsto>
                    AMimes (set_option dt \<union> set_option (content_mime w (path s)) \<union>
                            set_option (name_mime w n)))\<rparr>))) \<and>
   (has_attr s ''mimetypes'' \<longrightarrow> mimetypes w s = (get_attr s ''mimetypes'', w, s)) \<and>
   (returns_normally (fst (mimetypes w s)) \<longrightarrow>
      mimetypes w' (snd (snd (mimetypes w s))) =
        (fst (mimetypes w s), w', snd (snd (mimetypes w s))) \<and>
      (fst (snd (mimetypes w s)) = w \<or>
       (\<exists>n. declared_filename s = AStr n \<and>
          fst (snd (mimetypes w s)) =
            w\<lparr>trace := trace w @ [SniffContent (path s), SniffName n]\<rparr>))) \<and>
   (\<not> has_attr s ''file_stat'' \<and> stat_of w (path s) = Inr st \<longrightarrow>
      file_size w s =
        (Inr (st_size st), w\<lparr>trace := trace w @ [Stat (path s)]\<rparr>,
         s\<lparr>attributes := (attributes s)(''file_stat'' \<mapsto> AStat st)\<rparr>)) \<and>
   (attributes s ''file_stat'' = Some (AStat st) \<longrightarrow>
      file_size w s = (Inr (st_size st), w, s)) \<and>
   (returns_normally (fst (file_size w s)) \<longrightarrow>
      file_size w' (snd (snd (file_size w s))) =
        (fst (file_size w s), w', snd (snd (file_size w s))) \<and>
      (fst (snd (file_size w s)) = w \<or>
       fst (snd (file_size w s)) = w\<lparr>trace := trace w @ [Stat (path s)]\<rparr>)) \<and>
   (\<not> has_attr s ''analyses_time'' \<longrightarrow>
      analyses_time w s =
        (Inr (AStr (clock w)), w\<lparr>trace := trace w @ [ClockRead]\<rparr>,
         s\<lparr>attributes := (attributes s)(''analyses_time'' \<mapsto> AStr (clock w))\<rparr>)) \<and>
   (has_attr s ''analyses_time'' \<longrightarrow>
      analyses_time w s = (get_attr s ''analyses_time'', w, s)) \<and>
   (returns_normally (fst (analyses_time w s)) \<longrightarrow>
      analyses_time w' (snd (snd (analyses_time w s))) =
        (fst (analyses_time w s), w', snd (snd (analyses_time w s))) \<and>
      (fst (snd (analyses_time w s)) = w \<or>
       fst (snd (analyses_time w s)) = w\<lparr>trace := trace w @ [ClockRead]\<rparr>)) \<and>
   (\<not> has_attr s ''office_macros'' \<longrightarrow>
      office_macros w s =
        (Inr (ABool (macros_in w (path s))), w\<lparr>trace := trace w @ [MacroScan (path s)]\<rparr>,
         s\<lparr>attributes := (attributes s)(''office_macros'' \<mapsto>
              ABool (macros_in w (path s)))\<rparr>)) \<and>
   (has_attr s ''office_macros'' \<longrightarrow>
      office_macros w s = (get_attr s ''office_macros'', w, s)) \<and>
   (returns_normally (fst (office_macros w s)) \<longrightarrow>
      office_macros w' (snd (snd (office_macros w s))) =
        (fst (office_macros w s), w', snd (snd (office_macros w s))) \<and>
      (fst (snd (office_macros w s)) = w \<or>
       fst (snd (office_macros w s)) = w\<lparr>trace := trace w @ [MacroScan (path s)]\<rparr>))"
proof (intro conjI impI)
  show "mimetypes w s =
        (if n = ''smime.p7s'' \<and> (\<exists>t. dt = Some t \<and> t \<in> set leave_alone_types_p7s)
         then (Inr (AMimes (set_option dt)), w,
               s\<lparr>attributes := (attributes s)(''mimetypes'' \<mapsto> AMimes (set_option dt))\<rparr>)
         else (Inr (AMimes (set_option dt \<union> set_option (content_mime w (path s)) \<union>
                            set_option (name_mime w n))),
               w\<lparr>trace := trace w @ [SniffContent (path s), SniffName n]\<rparr>,
               s\<lparr>attributes := (attributes s)(''mimetypes'' \<mapsto>
                    AMimes (set_option dt \<union> set_option (content_mime w (path s)) \<union>
                            set_option (name_mime w n)))\<rparr>))"
    if "\<not> has_attr s ''mimetypes'' \<and> declared_filename s = AStr n \<and> declared_type s = Some dt"
    using that by (intro mimetypes_first_access) simp_all
qed (simp_all add: sha256sum_first_access sha256sum_hit sha256sum_cached
      file_extension_first_access file_extension_hit file_extension_cached
      mimetypes_hit mimetypes_cached file_size_first_access file_size_hit file_size_cached
      analyses_time_first_access analyses_time_hit analyses_time_cached
      office_macros_first_access office_macros_hit office_macros_cached)

subsection \<open>Failing sends\<close>

lemma send_message_swallows:
  assumes "io_failure_at_most (send_exception w (length (trace w)))"
  shows "fst (send_message w s msg) = Inr ()"
proof (cases "socket s")
  case None
  then show ?thesis by (simp add: send_message_def)
next
  case (Some sock)
  show ?thesis
  proof (cases "send_exception w (length (trace w))")
    case None
    then show ?thesis by (simp add: send_message_def Some socket_send_def)
  next
    case (Some e)
    with assms obtain n where "e = IOError n"
      by (cases e) (simp_all add: io_failure_at_most_def)
    with Some \<open>socket s = Some sock\<close> show ?thesis
      by (simp add: send_message_def socket_send_def)
  qed
qed

lemma send_message_world:
  "send_exception (snd (send_message w s msg)) = send_exception w"
  by (auto simp: send_message_def socket_send_def record_event_def
      split: option.splits error.splits)

lemma report_loop_swallows:
  assumes "\<forall>k. io_failure_at_most (send_exception w k)"
  shows "fst (report_loop w s vs) = Inr () \<and>
         snd (snd (report_loop w s vs)) =
           s\<lparr>peekaboo_report := peekaboo_report s @ map (rule_line s) vs\<rparr> \<and>
         send_exception (fst (snd (report_loop w s vs))) = send_exception w"
  using assms
proof (induction vs arbitrary: w s)
  case Nil
  show ?case by simp
next
  case (Cons v vs)
  let ?s1 = "s\<lparr>peekaboo_report := peekaboo_report s @ [rule_line s v]\<rparr>"
  obtain r w1 where sm: "send_message w ?s1 (rule_line s v) = (r, w1)"
    by (cases "send_message w ?s1 (rule_line s v)") auto
  have r: "r = Inr ()"
    using send_message_swallows[of w ?s1 "rule_line s v"] Cons.prems sm by simp
  have w1: "send_exception w1 = send_exception w"
    using send_message_world[of w ?s1 "rule_line s v"] sm by simp
  have step: "report_loop w s (v # vs) = report_loop w1 ?s1 vs"
    by (simp add: Let_def sm r)
  have "\<forall>k. io_failure_at_most (send_exception w1 k)"
    using Cons.prems w1 by simp
  from Cons.IH[OF this, of ?s1] show ?case
    unfolding step by (simp add: w1 rule_line_def)
qed

text \<open>
  C9. When a send either succeeds or fails with an I/O error, a broken pipe or another,
  \<^verbatim>\<open>__send_message\<close> returns normally. So does \<^verbatim>\<open>report\<close> on a sample with rule results
  \<open>vs\<close>, and the report in memory is the report before, followed by the line of each rule
  result in order and by the line of the final result, whether the sends fail or not.
\<close>

theorem send_failure_not_propagated:
  assumes "\<forall>k. io_failure_at_most (send_exception w k)"
    and "get_attr s ''rule_results'' = Inr (ARules vs)"
  shows "fst (send_message w s msg) = Inr () \<and>
         fst (report w s) = Inr () \<and>
         peekaboo_report (snd (snd (report w s))) =
           peekaboo_report s @ map (rule_line s) vs @
           [final_line s (result (snd (determine_result s)))]"
proof -
  have d: "determine_result s = (Inr (), determine_loop s vs)"
    using assms(2) by (simp add: determine_result_def)
  let ?s1 = "determine_loop s vs"
  have s1: "?s1 = s\<lparr>result := result ?s1, reason := reason ?s1\<rparr>"
    by (simp add: determine_loop_aggregate)
  have g: "get_attr ?s1 ''rule_results'' = Inr (ARules vs)"
    using assms(2) by (simp add: determine_loop_aggregate get_attr_def)
  obtain r w1 s2 where rl: "report_loop w ?s1 vs = (r, w1, s2)"
    by (cases "report_loop w ?s1 vs") auto
  from report_loop_swallows[OF assms(1), of ?s1 vs]
  have r: "r = Inr ()"
    and s2: "s2 = ?s1\<lparr>peekaboo_report := peekaboo_report ?s1 @ map (rule_line ?s1) vs\<rparr>"
    and w1: "send_exception w1 = send_exception w"
    by (simp_all add: rl)
  let ?s3 = "s2\<lparr>peekaboo_report := peekaboo_report s2 @ [final_line s2 (result s2)]\<rparr>"
  obtain r2 w2 where sm: "send_message w1 ?s3 (final_line s2 (result s2)) = (r2, w2)"
    by (cases "send_message w1 ?s3 (final_line s2 (result s2))") auto
  have r2: "r2 = Inr ()"
    using send_message_swallows[of w1 ?s3 "final_line s2 (result s2)"] assms(1) w1 sm by simp
  have rep: "report w s = (Inr (), w2, ?s3)"
    by (simp add: report_def d g rl r Let_def sm r2)
  have f: "filename ?s1 = filename s" "peekaboo_report ?s1 = peekaboo_report s"
    by (simp_all add: determine_loop_aggregate)
  have "rule_line ?s1 = rule_line s" "final_line s2 = final_line s"
    by (auto simp: rule_line_def final_line_def s2 f fun_eq_iff)
  then show ?thesis
    using send_message_swallows[of w s msg] assms(1)
    by (simp add: rep d s2 f)
qed

subsection \<open>The worked examples\<close>

lemma basename_example: "basename ''/tmp/amavis-1/parts/p001'' = ''p001''"
  by code_simp

lemma splitext_example: "splitext ''invoice.doc'' = (''invoice'', ''.doc'')"
  by code_simp

lemma Sample_example:
  "Sample ''/tmp/amavis-1/parts/p001''
     [(''name_declared'', AStr ''invoice.doc''), (''type_declared'', AStr ''application/msword''),
      (''size'', ANone)]
     (Some 7) (Some ''/var/lib/peekaboo'') (Some ''/tmp/([^/]+)/parts.*'') False =
   (Inr (), example_sample)"
  by (simp add: Sample_def example_sample_def set_attr_def has_attr_def basename_example
      fun_upd_twist)

theorem report_without_rule_results_witness:
  "never_judged example_sample \<and>
   report example_world example_sample =
     (Inl (KeyError_not_found ''rule_results''), example_world, example_sample) \<and>
   determine_result example_sample = (Inl (KeyError_not_found ''rule_results''), example_sample)"
proof -
  have "never_judged (snd (Sample ''/tmp/amavis-1/parts/p001''
     [(''name_declared'', AStr ''invoice.doc''), (''type_declared'', AStr ''application/msword''),
      (''size'', ANone)]
     (Some 7) (Some ''/var/lib/peekaboo'') (Some ''/tmp/([^/]+)/parts.*'') False))"
    by (rule nj_Sample)
  then have nj: "never_judged example_sample"
    by (simp add: Sample_example)
  from report_without_rule_results [OF nj, of example_world] nj show ?thesis by simp
qed

lemma re_sub_example:
  "match_here example_regex ''/tmp/amavis-1/parts/p001'' = Some (''amavis-1'', [])"
  "re_sub example_regex ''/tmp/amavis-1/parts/p001'' = ''amavis-1''"
  "re_sub example_regex ''/srv/in/p002'' = ''/srv/in/p002''"
  "re_sub example_regex ''/var/tmp/amavis-1/parts/p001'' = ''/varamavis-1''"
  by code_simp+




lemma init_example:
  "fst (init example_lib example_world example_sample) = Inr () \<and>
   wd (snd (snd (init example_lib example_world example_sample))) =
     Some ''/var/lib/peekaboo/amavis-1k3J9xQ'' \<and>
   submit_path (snd (snd (init example_lib example_world example_sample))) =
     Some (''/var/lib/peekaboo/amavis-1k3J9xQ/'' @
           ''e3b0c44298fc1c149afbf4c8996fb92427ae41e4649b934ca495991b7852b855'' @ ''.doc'') \<and>
   length (peekaboo_report (snd (snd (init example_lib example_world example_sample)))) = 3 \<and>
   map (\<lambda>ev. case ev of Mkdtemp _ _ \<Rightarrow> 1 | Symlink _ _ \<Rightarrow> 2 | ReadFile _ \<Rightarrow> 3 | Send _ _ \<Rightarrow> 4
          | LogWarning _ \<Rightarrow> 5 | _ \<Rightarrow> (0::nat))
     (trace (fst (snd (init example_lib example_world example_sample)))) = [1, 3, 2, 4, 5]"
  by (simp add: init_def file_extension_def example_sample_def has_attr_def get_attr_def
      set_attr_def splitext_example truthy_def init_workdir_def get_job_hash_def
      re_sub_example example_lib_def example_world_def mkdtemp_def record_event_def
      path_join_def
      sha256sum_def read_file_def py_str_def os_symlink_def init_report_def send_message_def
      socket_send_def EPIPE_def append_meta_line_def Let_def)

theorem init_idempotent_witness:
  "fst (init example_lib example_world example_sample) = Inr () \<and>
   init example_lib changed_world (snd (snd (init example_lib example_world example_sample))) =
     (Inr (), changed_world, snd (snd (init example_lib example_world example_sample)))"
proof -
  have f: "fst (init example_lib example_world example_sample) = Inr ()"
    using init_example by simp
  then obtain w1 s1 where i: "init example_lib example_world example_sample = (Inr (), w1, s1)"
    by (cases "init example_lib example_world example_sample") auto
  from init_idempotent [OF i, of example_lib changed_world] f i show ?thesis by simp
qed

theorem send_failure_not_propagated_witness:
  "(\<forall>k. send_exception example_world k = Some (IOError EPIPE)) \<and>
   socket (judged_sample [verdict Clean ''known good'', verdict Malicious ''macro'']) = Some 7 \<and>
   fst (send_message example_world
     (judged_sample [verdict Clean ''known good'', verdict Malicious ''macro'']) ''hello'') = Inr () \<and>
   fst (report example_world
     (judged_sample [verdict Clean ''known good'', verdict Malicious ''macro''])) = Inr () \<and>
   peekaboo_report (snd (snd (report example_world
     (judged_sample [verdict Clean ''known good'', verdict Malicious ''macro''])))) =
     [rule_line example_sample (verdict Clean ''known good''),
      rule_line example_sample (verdict Malicious ''macro''),
      final_line example_sample Malicious]"
proof -
  let ?vs = "[verdict Clean ''known good'', verdict Malicious ''macro'']"
  have a: "\<forall>k. io_failure_at_most (send_exception example_world k)"
    by (simp add: example_world_def io_failure_at_most_def)
  have b: "get_attr (judged_sample ?vs) ''rule_results'' = Inr (ARules ?vs)"
    by (simp add: get_attr_def judged_sample_def)
  have c: "result (snd (determine_result (judged_sample ?vs))) = Malicious"
    by (simp add: determine_result_def get_attr_def determine_step_def result_ge_def
        verdict_def judged_sample_def example_sample_def)
  have d: "peekaboo_report (judged_sample ?vs) = []" "socket (judged_sample ?vs) = Some 7"
    "rule_line (judged_sample ?vs) = rule_line example_sample"
    "final_line (judged_sample ?vs) = final_line example_sample"
    by (simp_all add: judged_sample_def example_sample_def rule_line_def final_line_def fun_eq_iff)
  have e: "\<forall>k. send_exception example_world k = Some (IOError EPIPE)"
    by (simp add: example_world_def)
  show ?thesis
    using send_failure_not_propagated [OF a b, of "''hello''"] c d e by simp
qed

theorem derived_properties_cached_witness:
  "attributes example_sample =
     [''meta_info_name_declared'' \<mapsto> AStr ''invoice.doc'',
      ''meta_info_type_declared'' \<mapsto> AStr ''application/msword''] \<and>
   file_bytes example_world (path example_sample) = Inr [] \<and>
   file_bytes changed_world (path example_sample) = Inl 2 \<and>
   sha256sum example_lib example_world example_sample =
     (Inr (AStr ''e3b0c44298fc1c149afbf4c8996fb92427ae41e4649b934ca495991b7852b855''),
      example_world\<lparr>trace := [ReadFile ''/tmp/amavis-1/parts/p001'']\<rparr>,
      example_sample\<lparr>attributes := (attributes example_sample)(''sha256sum'' \<mapsto>
        AStr ''e3b0c44298fc1c149afbf4c8996fb92427ae41e4649b934ca495991b7852b855'')\<rparr>) \<and>
   sha256sum example_lib changed_world
       (snd (snd (sha256sum example_lib example_world example_sample))) =
     (Inr (AStr ''e3b0c44298fc1c149afbf4c8996fb92427ae41e4649b934ca495991b7852b855''),
      changed_world, snd (snd (sha256sum example_lib example_world example_sample))) \<and>
   file_extension example_sample =
     (Inr (AStr ''doc''),
      example_sample\<lparr>attributes := (attributes example_sample)(''file_extension'' \<mapsto>
        AStr ''doc'')\<rparr>) \<and>
   file_extension (snd (file_extension example_sample)) =
     (Inr (AStr ''doc''), snd (file_extension example_sample)) \<and>
   mimetypes example_world example_sample =
     (Inr (AMimes {''application/msword'', ''application/octet-stream''}),
      example_world\<lparr>trace := [SniffContent ''/tmp/amavis-1/parts/p001'', SniffName ''invoice.doc'']\<rparr>,
      example_sample\<lparr>attributes := (attributes example_sample)(''mimetypes'' \<mapsto>
        AMimes {''application/msword'', ''application/octet-stream''})\<rparr>) \<and>
   mimetypes changed_world (snd (snd (mimetypes example_world example_sample))) =
     (Inr (AMimes {''application/msword'', ''application/octet-stream''}),
      changed_world, snd (snd (mimetypes example_world example_sample))) \<and>
   file_size example_world example_sample =
     (Inr 0, example_world\<lparr>trace := [Stat ''/tmp/amavis-1/parts/p001'']\<rparr>,
      example_sample\<lparr>attributes := (attributes example_sample)(''file_stat'' \<mapsto>
        AStat \<lparr>st_size = 0\<rparr>)\<rparr>) \<and>
   file_size changed_world (snd (snd (file_size example_world example_sample))) =
     (Inr 0, changed_world, snd (snd (file_size example_world example_sample))) \<and>
   analyses_time example_world example_sample =
     (Inr (AStr ''20190517T093000''), example_world\<lparr>trace := [ClockRead]\<rparr>,
      example_sample\<lparr>attributes := (attributes example_sample)(''analyses_time'' \<mapsto>
        AStr ''20190517T093000'')\<rparr>) \<and>
   analyses_time changed_world (snd (snd (analyses_time example_world example_sample))) =
     (Inr (AStr ''20190517T093000''), changed_world,
      snd (snd (analyses_time example_world example_sample))) \<and>
   office_macros example_world example_sample =
     (Inr (ABool False), example_world\<lparr>trace := [MacroScan ''/tmp/amavis-1/parts/p001'']\<rparr>,
      example_sample\<lparr>attributes := (attributes example_sample)(''office_macros'' \<mapsto>
        ABool False)\<rparr>) \<and>
   office_macros changed_world (snd (snd (office_macros example_world example_sample))) =
     (Inr (ABool False), changed_world,
      snd (snd (office_macros example_world example_sample)))"
proof -
  have at: "attributes example_sample =
     [''meta_info_name_declared'' \<mapsto> AStr ''invoice.doc'',
      ''meta_info_type_declared'' \<mapsto> AStr ''application/msword'']"
    by (simp add: example_sample_def)
  have h: "\<not> has_attr example_sample ''sha256sum''" "\<not> has_attr example_sample ''file_extension''"
    "\<not> has_attr example_sample ''mimetypes''" "\<not> has_attr example_sample ''file_stat''"
    "\<not> has_attr example_sample ''analyses_time''" "\<not> has_attr example_sample ''office_macros''"
    by (simp_all add: has_attr_def at)
  have d: "declared_filename example_sample = AStr ''invoice.doc''"
    "declared_type example_sample = Some (Some ''application/msword'')"
    by (simp_all add: declared_filename_def declared_type_def at)
  have p: "path example_sample = ''/tmp/amavis-1/parts/p001''"
    by (simp add: example_sample_def)
  have e: "file_bytes example_world q = Inr []" "stat_of example_world q = Inr \<lparr>st_size = 0\<rparr>"
    "content_mime example_world q = Some ''application/octet-stream''"
    "name_mime example_world q = None" "macros_in example_world q = False"
    "clock example_world = ''20190517T093000''" "trace example_world = []"
    "file_bytes changed_world q = Inl 2" for q
    by (simp_all add: example_world_def changed_world_def)
  have l: "sha256_hexdigest example_lib [] =
      ''e3b0c44298fc1c149afbf4c8996fb92427ae41e4649b934ca495991b7852b855''"
    by (simp add: example_lib_def)
  have x: "drop 1 (snd (splitext ''invoice.doc'')) = ''doc''"
    by (simp add: splitext_example)
  have m: "\<not> (''invoice.doc'' = ''smime.p7s'' \<and>
      (\<exists>t. Some ''application/msword'' = Some t \<and> t \<in> set leave_alone_types_p7s))"
    by simp
  note T = derived_properties_cached [where s = example_sample and w = example_world
      and lib = example_lib and lib' = example_lib and w' = changed_world and b = "[]"
      and n = "''invoice.doc''" and dt = "Some ''application/msword''"
      and st = "\<lparr>st_size = 0\<rparr>"]
  note C1 = T [THEN conjunct1] and R1 = T [THEN conjunct2]
  note C2 = R1 [THEN conjunct1] and R2 = R1 [THEN conjunct2]
  note C3 = R2 [THEN conjunct1] and R3 = R2 [THEN conjunct2]
  note C4 = R3 [THEN conjunct1] and R4 = R3 [THEN conjunct2]
  note C5 = R4 [THEN conjunct1] and R5 = R4 [THEN conjunct2]
  note C6 = R5 [THEN conjunct1] and R6 = R5 [THEN conjunct2]
  note C7 = R6 [THEN conjunct1] and R7 = R6 [THEN conjunct2]
  note C8 = R7 [THEN conjunct1] and R8 = R7 [THEN conjunct2]
  note C9 = R8 [THEN conjunct1] and R9 = R8 [THEN conjunct2]
  note C10 = R9 [THEN conjunct1] and R10 = R9 [THEN conjunct2]
  note C11 = R10 [THEN conjunct1] and R11 = R10 [THEN conjunct2]
  note C12 = R11 [THEN conjunct1] and R12 = R11 [THEN conjunct2]
  note C13 = R12 [THEN conjunct1] and R13 = R12 [THEN conjunct2]
  note C14 = R13 [THEN conjunct1] and R14 = R13 [THEN conjunct2]
  note C15 = R14 [THEN conjunct1] and R15 = R14 [THEN conjunct2]
  note C16 = R15 [THEN conjunct1] and R16 = R15 [THEN conjunct2]
  note C17 = R16 [THEN conjunct1] and R17 = R16 [THEN conjunct2]
  note C18 = R17
  have s1: "sha256sum example_lib example_world example_sample =
     (Inr (AStr ''e3b0c44298fc1c149afbf4c8996fb92427ae41e4649b934ca495991b7852b855''),
      example_world\<lparr>trace := [ReadFile ''/tmp/amavis-1/parts/p001'']\<rparr>,
      example_sample\<lparr>attributes := (attributes example_sample)(''sha256sum'' \<mapsto>
        AStr ''e3b0c44298fc1c149afbf4c8996fb92427ae41e4649b934ca495991b7852b855'')\<rparr>)"
    using C1 h(1) e(1,7) l p by simp
  have s2: "file_extension example_sample =
     (Inr (AStr ''doc''),
      example_sample\<lparr>attributes := (attributes example_sample)(''file_extension'' \<mapsto>
        AStr ''doc'')\<rparr>)"
    using C4 h(2) d(1) x by simp
  have s3: "mimetypes example_world example_sample =
     (Inr (AMimes {''application/msword'', ''application/octet-stream''}),
      example_world\<lparr>trace := [SniffContent ''/tmp/amavis-1/parts/p001'', SniffName ''invoice.doc'']\<rparr>,
      example_sample\<lparr>attributes := (attributes example_sample)(''mimetypes'' \<mapsto>
        AMimes {''application/msword'', ''application/octet-stream''})\<rparr>)"
    using C7 h(3) d m e(3,4,7) p by (simp add: insert_commute)
  have s4: "file_size example_world example_sample =
     (Inr 0, example_world\<lparr>trace := [Stat ''/tmp/amavis-1/parts/p001'']\<rparr>,
      example_sample\<lparr>attributes := (attributes example_sample)(''file_stat'' \<mapsto>
        AStat \<lparr>st_size = 0\<rparr>)\<rparr>)"
    using C10 h(4) e(2,7) p by simp
  have s5: "analyses_time example_world example_sample =
     (Inr (AStr ''20190517T093000''), example_world\<lparr>trace := [ClockRead]\<rparr>,
      example_sample\<lparr>attributes := (attributes example_sample)(''analyses_time'' \<mapsto>
        AStr ''20190517T093000'')\<rparr>)"
    using C13 h(5) e(6,7) by simp
  have s6: "office_macros example_world example_sample =
     (Inr (ABool False), example_world\<lparr>trace := [MacroScan ''/tmp/amavis-1/parts/p001'']\<rparr>,
      example_sample\<lparr>attributes := (attributes example_sample)(''office_macros'' \<mapsto>
        ABool False)\<rparr>)"
    using C16 h(6) e(5,7) p by simp
  have r: "returns_normally (fst (sha256sum example_lib example_world example_sample))"
    "returns_normally (fst (file_extension example_sample))"
    "returns_normally (fst (mimetypes example_world example_sample))"
    "returns_normally (fst (file_size example_world example_sample))"
    "returns_normally (fst (analyses_time example_world example_sample))"
    "returns_normally (fst (office_macros example_world example_sample))"
    by (simp_all add: s1 s2 s3 s4 s5 s6 returns_normally_def)
  have f: "fst (sha256sum example_lib example_world example_sample) =
      Inr (AStr ''e3b0c44298fc1c149afbf4c8996fb92427ae41e4649b934ca495991b7852b855'')"
    "fst (file_extension example_sample) = Inr (AStr ''doc'')"
    "fst (mimetypes example_world example_sample) =
      Inr (AMimes {''application/msword'', ''application/octet-stream''})"
    "fst (file_size example_world example_sample) = Inr 0"
    "fst (analyses_time example_world example_sample) = Inr (AStr ''20190517T093000'')"
    "fst (office_macros example_world example_sample) = Inr (ABool False)"
    by (simp_all add: s1 s2 s3 s4 s5 s6)
  have t1: "sha256sum example_lib changed_world
       (snd (snd (sha256sum example_lib example_world example_sample))) =
     (Inr (AStr ''e3b0c44298fc1c149afbf4c8996fb92427ae41e4649b934ca495991b7852b855''),
      changed_world, snd (snd (sha256sum example_lib example_world example_sample)))"
    using C3 [THEN mp, OF r(1), THEN conjunct1] by (simp only: f(1))
  have t2: "file_extension (snd (file_extension example_sample)) =
     (Inr (AStr ''doc''), snd (file_extension example_sample))"
    using C6 [THEN mp, OF r(2)] by (simp only: f(2))
  have t3: "mimetypes changed_world (snd (snd (mimetypes example_world example_sample))) =
     (Inr (AMimes {''application/msword'', ''application/octet-stream''}),
      changed_world, snd (snd (mimetypes example_world example_sample)))"
    using C9 [THEN mp, OF r(3), THEN conjunct1] by (simp only: f(3))
  have t4: "file_size changed_world (snd (snd (file_size example_world example_sample))) =
     (Inr 0, changed_world, snd (snd (file_size example_world example_sample)))"
    using C12 [THEN mp, OF r(4), THEN conjunct1] by (simp only: f(4))
  have t5: "analyses_time changed_world (snd (snd (analyses_time example_world example_sample))) =
     (Inr (AStr ''20190517T093000''), changed_world,
      snd (snd (analyses_time example_world example_sample)))"
    using C15 [THEN mp, OF r(5), THEN conjunct1] by (simp only: f(5))
  have t6: "office_macros changed_world (snd (snd (office_macros example_world example_sample))) =
     (Inr (ABool False), changed_world,
      snd (snd (office_macros example_world example_sample)))"
    using C18 [THEN mp, OF r(6), THEN conjunct1] by (simp only: f(6))
  show ?thesis
    using at e(1,8) s1 s2 s3 s4 s5 s6 t1 t2 t3 t4 t5 t6 by (simp only: simp_thms)
qed

end
